theory Spec2Isabelle
  imports Main
begin

section \<open>JSON values received from the Gateway\<close>

text \<open>
  Upstream results reach the session manager as the output of \<^verbatim>\<open>JSON.parse\<close>
  (type \<^verbatim>\<open>unknown\<close> in the source). A parsed object has unique keys, so an object is
  an association list read with \<^const>\<open>map_of\<close>. JavaScript's \<^verbatim>\<open>undefined\<close> is
  \<^const>\<open>None\<close> of \<open>json option\<close>. Numbers are integers here (of a size JavaScript
  prints in plain decimal digits); no definition below does arithmetic on them.
\<close>

datatype json =
    JNull
  | JBool bool
  | JNum int
  | JStr string
  | JArr "json list"
  | JObj "(string \<times> json) list"

datatype js_error = TypeError

text \<open>
  \<^verbatim>\<open>s.name\<close> for one of the names the bridge reads (\<^verbatim>\<open>sessionKey\<close>, \<^verbatim>\<open>key\<close>,
  \<^verbatim>\<open>title\<close>, \<^verbatim>\<open>label\<close>, \<^verbatim>\<open>createdAt\<close>, \<^verbatim>\<open>updatedAt\<close>, \<^verbatim>\<open>sessions\<close>): on
  \<^verbatim>\<open>null\<close> the read throws a TypeError, on an object it looks the key up, on every other
  value (boolean, number, string, array) none of these names is defined.
\<close>

fun getProp :: "json \<Rightarrow> string \<Rightarrow> js_error + json option" where
  "getProp JNull k = Inl TypeError"
| "getProp (JObj kvs) k = Inr (map_of kvs k)"
| "getProp (JBool b) k = Inr None"
| "getProp (JNum n) k = Inr None"
| "getProp (JStr s) k = Inr None"
| "getProp (JArr xs) k = Inr None"

text \<open>The same read once the receiver is known not to be \<^verbatim>\<open>null\<close>.\<close>

fun field :: "json \<Rightarrow> string \<Rightarrow> json option" where
  "field (JObj kvs) k = map_of kvs k"
| "field j k = None"

text \<open>\<^verbatim>\<open>a ?? b\<close>: the right operand when the left one is \<^verbatim>\<open>null\<close> or \<^verbatim>\<open>undefined\<close>.\<close>

fun nullish :: "json option \<Rightarrow> bool" where
  "nullish None = True"
| "nullish (Some JNull) = True"
| "nullish (Some j) = False"

definition coalesce :: "json option \<Rightarrow> json option \<Rightarrow> json option" where
  "coalesce a b = (if nullish a then b else a)"

text \<open>\<^verbatim>\<open>typeof v === 'string' ? v : ...\<close>: the string, when the value is one.\<close>

fun asString :: "json option \<Rightarrow> string option" where
  "asString (Some (JStr s)) = Some s"
| "asString v = None"

text \<open>\<^verbatim>\<open>!!v\<close>: \<^verbatim>\<open>null\<close>, \<^verbatim>\<open>false\<close>, \<^verbatim>\<open>0\<close> and the empty string are falsy.\<close>

fun truthy :: "json \<Rightarrow> bool" where
  "truthy JNull = False"
| "truthy (JBool b) = b"
| "truthy (JNum n) = (n \<noteq> 0)"
| "truthy (JStr s) = (s \<noteq> [])"
| "truthy (JArr xs) = True"
| "truthy (JObj kvs) = True"

text \<open>The decimal digits of a number.\<close>

fun showNat :: "nat \<Rightarrow> string" where
  "showNat n =
     (if n < 10 then [''0123456789'' ! n]
      else showNat (n div 10) @ [''0123456789'' ! (n mod 10)])"

declare showNat.simps [simp del]

definition showInt :: "int \<Rightarrow> string" where
  "showInt n = (if n < 0 then ''-'' @ showNat (nat (- n)) else showNat (nat n))"

text \<open>
  \<^verbatim>\<open>String(v)\<close>: a string is itself; an array is its elements joined by commas, where a
  \<^verbatim>\<open>null\<close> element gives the empty string; an object is \<^verbatim>\<open>[object Object]\<close>.
\<close>

fun jsString :: "json \<Rightarrow> string" and jsJoin :: "json list \<Rightarrow> string" where
  "jsString JNull = ''null''"
| "jsString (JBool b) = (if b then ''true'' else ''false'')"
| "jsString (JNum n) = showInt n"
| "jsString (JStr s) = s"
| "jsString (JArr xs) = jsJoin xs"
| "jsString (JObj kvs) = ''[object Object]''"
| "jsJoin [] = []"
| "jsJoin (x # xs) =
     (if x = JNull then [] else jsString x) @ (if xs = [] then [] else '','' @ jsJoin xs)"

section \<open>SessionManager (session-manager.ts)\<close>

subsection \<open>normalizeSessions\<close>

record session_norm =
  sessionKey :: string
  title :: "string option"
  createdAt :: string
  updatedAt :: string

text \<open>
  The callback given to \<^verbatim>\<open>.map\<close> in \<^verbatim>\<open>normalizeSessions\<close>. Its first statement reads
  \<^verbatim>\<open>s.sessionKey\<close>, which throws when the entry is \<^verbatim>\<open>null\<close>; after it every read
  is on a non-null value. \<open>Inr None\<close> is the callback's \<^verbatim>\<open>return null\<close>.
  \<open>nowIso\<close> stands for \<^verbatim>\<open>new Date().toISOString()\<close>.
\<close>

definition normalizeEntry :: "string \<Rightarrow> json \<Rightarrow> js_error + session_norm option" where
  "normalizeEntry nowIso s =
     (case getProp s ''sessionKey'' of
        Inl e \<Rightarrow> Inl e
      | Inr sk \<Rightarrow>
         (case asString (coalesce sk (field s ''key'')) of
            None \<Rightarrow> Inr None
          | Some k \<Rightarrow>
             if k = [] then Inr None
             else Inr (Some \<lparr>
               sessionKey = k,
               title = (case asString (field s ''title'') of
                          Some t \<Rightarrow> Some t
                        | None \<Rightarrow> asString (field s ''label'')),
               createdAt = (case asString (field s ''createdAt'') of
                              Some c \<Rightarrow> c
                            | None \<Rightarrow> (case asString (field s ''updatedAt'') of
                                         Some u \<Rightarrow> u
                                       | None \<Rightarrow> nowIso)),
               updatedAt = (case asString (field s ''updatedAt'') of
                              Some u \<Rightarrow> u
                            | None \<Rightarrow> (case asString (field s ''createdAt'') of
                                         Some c \<Rightarrow> c
                                       | None \<Rightarrow> nowIso)) \<rparr>)))"

text \<open>\<^verbatim>\<open>Array.prototype.map\<close> with a callback that may throw: the first throw ends the call.\<close>

fun mapThrow :: "('a \<Rightarrow> 'e + 'b) \<Rightarrow> 'a list \<Rightarrow> 'e + 'b list" where
  "mapThrow f [] = Inr []"
| "mapThrow f (x # xs) =
     (case f x of
        Inl e \<Rightarrow> Inl e
      | Inr y \<Rightarrow> (case mapThrow f xs of Inl e \<Rightarrow> Inl e | Inr ys \<Rightarrow> Inr (y # ys)))"

text \<open>
  The array the session list is taken from: \<^verbatim>\<open>raw\<close> itself when it is an array,
  \<^verbatim>\<open>raw.sessions\<close> when \<^verbatim>\<open>raw\<close> is an object holding an array there, else empty.
\<close>

fun rawSessions :: "json option \<Rightarrow> json list" where
  "rawSessions (Some (JArr xs)) = xs"
| "rawSessions (Some (JObj kvs)) =
     (case map_of kvs ''sessions'' of Some (JArr xs) \<Rightarrow> xs | _ \<Rightarrow> [])"
| "rawSessions r = []"

text \<open>\<^verbatim>\<open>.filter(Boolean)\<close> on the mapped array keeps the entries that are not \<^verbatim>\<open>null\<close>.\<close>

fun filterBoolean :: "'a option list \<Rightarrow> 'a list" where
  "filterBoolean [] = []"
| "filterBoolean (None # xs) = filterBoolean xs"
| "filterBoolean (Some x # xs) = x # filterBoolean xs"

definition normalizeSessions :: "string \<Rightarrow> json option \<Rightarrow> js_error + session_norm list" where
  "normalizeSessions nowIso raw =
     (case mapThrow (normalizeEntry nowIso) (rawSessions raw) of
        Inl e \<Rightarrow> Inl e
      | Inr rs \<Rightarrow> Inr (filterBoolean rs))"

subsection \<open>Local cache and archive set\<close>

record local_session =
  ls_sessionKey :: string
  ls_title :: "string option"
  ls_createdAt :: "string option"
  ls_lastActiveAt :: int

text \<open>
  The two private maps of the manager: \<^verbatim>\<open>cache\<close> (token to session key to
  LocalSession) and \<^verbatim>\<open>archiveSet\<close> (token to a set of session keys).
\<close>

record session_manager =
  cache :: "string \<rightharpoonup> (string \<rightharpoonup> local_session)"
  archiveSet :: "string \<rightharpoonup> string set"

definition newSessionManager :: session_manager where
  "newSessionManager = \<lparr> cache = Map.empty, archiveSet = Map.empty \<rparr>"

text \<open>\<^verbatim>\<open>_tokenArchive\<close>: the token's set, created empty and stored when there is none.\<close>

definition tokenArchive :: "session_manager \<Rightarrow> string \<Rightarrow> string set \<times> session_manager" where
  "tokenArchive m token =
     (case archiveSet m token of
        Some s \<Rightarrow> (s, m)
      | None \<Rightarrow> ({}, m\<lparr> archiveSet := (archiveSet m)(token \<mapsto> {}) \<rparr>))"

text \<open>\<^verbatim>\<open>_tokenCache\<close>, the same for the session cache.\<close>

definition tokenCache ::
  "session_manager \<Rightarrow> string \<Rightarrow> (string \<rightharpoonup> local_session) \<times> session_manager" where
  "tokenCache m token =
     (case cache m token of
        Some c \<Rightarrow> (c, m)
      | None \<Rightarrow> (Map.empty, m\<lparr> cache := (cache m)(token \<mapsto> Map.empty) \<rparr>))"

text \<open>\<^verbatim>\<open>getLocalSession\<close>: \<^verbatim>\<open>this.cache.get(token)?.get(sessionKey) ?? null\<close>.\<close>

definition getLocalSession :: "session_manager \<Rightarrow> string \<Rightarrow> string \<Rightarrow> local_session option" where
  "getLocalSession m token k = (case cache m token of None \<Rightarrow> None | Some c \<Rightarrow> c k)"

text \<open>
  \<^verbatim>\<open>create\<close>, after the \<^verbatim>\<open>sessions.reset\<close> call has resolved: the new session is put
  into the token's cache. \<open>k\<close> is the generated key \<^verbatim>\<open>webchat-<millis>\<close>, \<open>nowMs\<close> is
  \<^verbatim>\<open>Date.now()\<close>, and the stored title is \<^verbatim>\<open>title || <default>\<close>, where the default
  is a literal (in Chinese, "new conversation") rendered here in ASCII.
\<close>

definition defaultTitle :: string where
  "defaultTitle = ''New conversation''"

definition create ::
  "session_manager \<Rightarrow> string \<Rightarrow> string \<Rightarrow> string option \<Rightarrow> string \<Rightarrow> int \<Rightarrow> session_manager" where
  "create m token k titleArg nowIso nowMs =
     (let (c, m1) = tokenCache m token
      in m1\<lparr> cache := (cache m1)(token \<mapsto> c(k \<mapsto>
            \<lparr> ls_sessionKey = k,
              ls_title = Some (case titleArg of
                                 None \<Rightarrow> defaultTitle
                               | Some t \<Rightarrow> if t = [] then defaultTitle else t),
              ls_createdAt = Some nowIso,
              ls_lastActiveAt = nowMs \<rparr>)) \<rparr>)"

text \<open>\<^verbatim>\<open>archive\<close>: \<^verbatim>\<open>this._tokenArchive(token).add(sessionKey)\<close>; the returned object is
  \<^verbatim>\<open>{ archived: true, sessionKey }\<close>.\<close>

definition archive ::
  "session_manager \<Rightarrow> string \<Rightarrow> string \<Rightarrow> (bool \<times> string) \<times> session_manager" where
  "archive m token k =
     (let (s, m1) = tokenArchive m token
      in ((True, k), m1\<lparr> archiveSet := (archiveSet m1)(token \<mapsto> insert k s) \<rparr>))"

text \<open>\<^verbatim>\<open>unarchive\<close>: \<^verbatim>\<open>this._tokenArchive(token).delete(sessionKey)\<close>.\<close>

definition unarchive ::
  "session_manager \<Rightarrow> string \<Rightarrow> string \<Rightarrow> (bool \<times> string) \<times> session_manager" where
  "unarchive m token k =
     (let (s, m1) = tokenArchive m token
      in ((False, k), m1\<lparr> archiveSet := (archiveSet m1)(token \<mapsto> s - {k}) \<rparr>))"

text \<open>\<^verbatim>\<open>archiveSession\<close> of gateway.ts, which the PATCH route calls with the body's flag.\<close>

definition archiveSession ::
  "session_manager \<Rightarrow> string \<Rightarrow> string \<Rightarrow> bool \<Rightarrow> (bool \<times> string) \<times> session_manager" where
  "archiveSession m token k archived =
     (if archived then archive m token k else unarchive m token k)"

subsection \<open>list\<close>

record session_listed =
  l_sessionKey :: string
  l_title :: "string option"
  l_createdAt :: string
  l_updatedAt :: string
  l_archived :: bool

text \<open>
  \<^verbatim>\<open>list\<close>, after \<^verbatim>\<open>sessions.list\<close> has resolved with \<open>raw\<close>: normalize, then spread
  each session and add \<^verbatim>\<open>archived: archived.has(s.sessionKey)\<close>.
\<close>

definition list_sessions ::
  "session_manager \<Rightarrow> string \<Rightarrow> string \<Rightarrow> json option
     \<Rightarrow> js_error + (session_listed list \<times> session_manager)" where
  "list_sessions m token nowIso raw =
     (case normalizeSessions nowIso raw of
        Inl e \<Rightarrow> Inl e
      | Inr sessions \<Rightarrow>
          (let (archived, m1) = tokenArchive m token
           in Inr (map (\<lambda>s. \<lparr> l_sessionKey = sessionKey s, l_title = title s,
                              l_createdAt = createdAt s, l_updatedAt = updatedAt s,
                              l_archived = (sessionKey s \<in> archived) \<rparr>) sessions, m1)))"


section \<open>RpcClient (rpc-client.ts)\<close>

subsection \<open>Frames and errors\<close>

text \<open>
  An inbound frame: an object that \<^verbatim>\<open>JSON.parse\<close> returned, which the message handler
  casts to \<^verbatim>\<open>RpcResponse\<close> without a check and, when \<^verbatim>\<open>type\<close> is \<^verbatim>\<open>'event'\<close>,
  to \<^verbatim>\<open>RpcEvent\<close>. The record has the fields of both interfaces that the code reads;
  \<^const>\<open>None\<close> is \<^verbatim>\<open>undefined\<close>. \<^verbatim>\<open>type\<close>, \<^verbatim>\<open>id\<close>, \<^verbatim>\<open>event\<close> and \<^verbatim>\<open>name\<close> are
  strings, as declared. \<^verbatim>\<open>error\<close> and \<^verbatim>\<open>ok\<close> are any JSON value, since the handler
  tests \<^verbatim>\<open>error\<close> for truthiness and compares \<^verbatim>\<open>ok\<close> with \<^verbatim>\<open>false\<close>, and what it
  does differs between the values; so are \<^verbatim>\<open>result\<close>, \<^verbatim>\<open>payload\<close> and \<^verbatim>\<open>data\<close>
  (\<^verbatim>\<open>null\<close> included, which is not \<^verbatim>\<open>undefined\<close>). Keeping \<^verbatim>\<open>type\<close> and \<^verbatim>\<open>id\<close> strings
  loses no behaviour: the handler only compares \<^verbatim>\<open>type\<close> with \<^verbatim>\<open>'event'\<close> and
  \<^verbatim>\<open>'res'\<close>, and an \<^verbatim>\<open>id\<close> that is not a string is either falsy, as the empty string is,
  or equal to no connect id and no key of the pending map, as an unknown string is.
\<close>

record frame =
  f_type :: "string option"
  f_id :: "string option"
  f_result :: "json option"
  f_ok :: "json option"
  f_payload :: "json option"
  f_error :: "json option"
  f_event :: "string option"
  f_name :: "string option"
  f_data :: "json option"

text \<open>An outbound request frame \<^verbatim>\<open>{ type: 'req', id, method, params? }\<close>.\<close>

record rpc_request =
  q_id :: string
  q_method :: string
  q_params :: "json option"

datatype gw_code = GATEWAY_CONNECT_FAILED | GATEWAY_RPC_ERROR | UNAUTHORIZED

text \<open>
  The message of a \<^verbatim>\<open>GatewayError\<close>. The source builds it from fixed (Chinese) literals
  and template strings; each literal or template is one constructor here, with the values
  the template interpolates. \<open>Upstream m\<close> is a truthy \<^verbatim>\<open>errorObj.message\<close>.
\<close>

datatype gw_message =
    Upstream string
  | TokenInvalid
  | RpcFailed
  | ConnectTokenInvalid
  | ConnectFailed
  | ConnectSendFailed
  | UpgradeTokenInvalid int
  | UpgradeFailed int
  | WsErrorMsg string
  | CloseTokenInvalid int
  | ConnectionLost int
  | ClosedByCaller
  | NotReady string
  | RequestTimedOut string
  | SendFailed

text \<open>
  The third constructor argument, \<^verbatim>\<open>details\<close>: the frame's \<^verbatim>\<open>error\<close> value, or the
  object \<^verbatim>\<open>{ code, message, data: msg }\<close> the handler makes up when the frame has none.
\<close>

datatype details = ErrorObj json | MadeUp string frame

record gateway_error =
  g_code :: gw_code
  g_message :: gw_message
  g_details :: "details option"

definition GatewayError :: "gw_code \<Rightarrow> gw_message \<Rightarrow> details option \<Rightarrow> gateway_error" where
  "GatewayError c m d = \<lparr> g_code = c, g_message = m, g_details = d \<rparr>"

text \<open>
  \<^verbatim>\<open>isAuthErrorCode\<close>: \<^verbatim>\<open>String(code)\<close> is one of \<^verbatim>\<open>UNAUTHORIZED\<close>, \<^verbatim>\<open>401\<close>, \<^verbatim>\<open>403\<close>,
  \<^verbatim>\<open>FORBIDDEN\<close>. The argument is what \<^verbatim>\<open>errorObj.code\<close> gave, \<^verbatim>\<open>undefined\<close> included.
\<close>

definition isAuthErrorCode :: "json option \<Rightarrow> bool" where
  "isAuthErrorCode c =
     (let s = (case c of None \<Rightarrow> ''undefined'' | Some j \<Rightarrow> jsString j)
      in s = ''UNAUTHORIZED'' \<or> s = ''401'' \<or> s = ''403'' \<or> s = ''FORBIDDEN'')"

text \<open>\<^verbatim>\<open>!!msg.error || msg.ok === false\<close>.\<close>

definition hasError :: "frame \<Rightarrow> bool" where
  "hasError msg =
     ((case f_error msg of Some e \<Rightarrow> truthy e | None \<Rightarrow> False) \<or> f_ok msg = Some (JBool False))"

text \<open>
  \<^verbatim>\<open>errorObj.message || fallback\<close>, as the message of the error: the \<^verbatim>\<open>Error\<close>
  constructor turns a message that is not a string into one.
\<close>

definition messageOr :: "json option \<Rightarrow> gw_message \<Rightarrow> gw_message" where
  "messageOr m fallback =
     (case m of
        None \<Rightarrow> fallback
      | Some j \<Rightarrow> if truthy j then Upstream (jsString j) else fallback)"

text \<open>
  The error a failed request is rejected with (lines 299 to 304). \<^verbatim>\<open>errorObj\<close> is
  \<^verbatim>\<open>msg.error ?? { code: 'RPC_ERROR', ... }\<close>: the frame's \<^verbatim>\<open>error\<close> unless that is
  \<^verbatim>\<open>null\<close> or \<^verbatim>\<open>undefined\<close> (\<open>coalesce v None\<close> is \<open>None\<close> exactly then), in which
  case it is the made-up object, whose code is no authentication code.
\<close>

definition rpcErrorOf :: "frame \<Rightarrow> gateway_error" where
  "rpcErrorOf msg =
     (case coalesce (f_error msg) None of
        None \<Rightarrow> GatewayError GATEWAY_RPC_ERROR RpcFailed (Some (MadeUp ''RPC_ERROR'' msg))
      | Some e \<Rightarrow>
          if isAuthErrorCode (field e ''code'')
          then GatewayError UNAUTHORIZED (messageOr (field e ''message'') TokenInvalid)
                 (Some (ErrorObj e))
          else GatewayError GATEWAY_RPC_ERROR (messageOr (field e ''message'') RpcFailed)
                 (Some (ErrorObj e)))"

text \<open>The error a failed connect handshake is rejected with (lines 269 to 282).\<close>

definition connectErrorOf :: "frame \<Rightarrow> gateway_error" where
  "connectErrorOf msg =
     (case coalesce (f_error msg) None of
        None \<Rightarrow> GatewayError GATEWAY_CONNECT_FAILED ConnectFailed
                  (Some (MadeUp ''CONNECT_FAILED'' msg))
      | Some e \<Rightarrow>
          if isAuthErrorCode (field e ''code'')
          then GatewayError UNAUTHORIZED
                 (messageOr (field e ''message'') ConnectTokenInvalid) (Some (ErrorObj e))
          else GatewayError GATEWAY_CONNECT_FAILED
                 (messageOr (field e ''message'') ConnectFailed) (Some (ErrorObj e)))"

subsection \<open>State of one client\<close>

text \<open>
  What a call of \<^verbatim>\<open>_doConnect\<close> closes over: \<^verbatim>\<open>settled\<close>, \<^verbatim>\<open>connectId\<close> and the
  promise it returns. There is one such closure for each WebSocket the client creates,
  and the handlers of that WebSocket read and write it.
\<close>

datatype promise_state = Pending | Fulfilled | RejectedWith gateway_error

record conn =
  settled :: bool
  connectId :: "string option"
  promise :: promise_state

text \<open>
  The fields of an \<^verbatim>\<open>RpcClient\<close>. \<open>ws\<close> is the index in \<open>conns\<close> of the WebSocket
  \<^verbatim>\<open>this.ws\<close> refers to; \<open>pending\<close> lists the keys of the pending map in insertion
  order (its values are the resolvers, whose calls are the effects below);
  \<open>heartbeatTimer\<close> says whether the field holds a timer; \<open>eventListeners\<close> maps a name
  to its callbacks in insertion order. The three options the handlers read are fields too.
\<close>

type_synonym callback = nat

record rpc_client =
  ws :: "nat option"
  pending :: "string list"
  heartbeatTimer :: bool
  reconnectAttempts :: nat
  isConnected :: bool
  closed :: bool
  lastPongAt :: int
  eventListeners :: "string \<rightharpoonup> callback list"
  conns :: "conn list"
  heartbeatIntervalMs :: int
  reconnectMaxRetries :: nat
  reconnectDelayMs :: nat
  connectParams :: json

definition newRpcClient :: "int \<Rightarrow> nat \<Rightarrow> nat \<Rightarrow> json \<Rightarrow> rpc_client" where
  "newRpcClient hb retries delay params =
     \<lparr> ws = None, pending = [], heartbeatTimer = False, reconnectAttempts = 0,
       isConnected = False, closed = False, lastPongAt = 0, eventListeners = Map.empty,
       conns = [], heartbeatIntervalMs = hb, reconnectMaxRetries = retries,
       reconnectDelayMs = delay, connectParams = params \<rparr>"

text \<open>
  What a handler does beyond changing the fields: calls on a WebSocket, settling of
  promises, timers, hooks and listener callbacks, in the order the code makes them. A hook
  effect stands for the call of the hook when one was given; hooks are taken to return.
\<close>

datatype effect =
    WsCreated nat
  | WsSend nat rpc_request
  | WsCloseCall nat
  | ConnectResolved nat
  | ConnectRejected nat gateway_error
  | Resolved string "json option"
  | Rejected string gateway_error
  | SetTimeout string
  | ClearTimeout string
  | HookOnConnect
  | HookOnDisconnect int string
  | HookOnError string
  | HookOnEvent frame
  | Invoked callback frame
  | CallbackThrew callback
  | ReconnectScheduled nat

subsection \<open>Private helpers\<close>

text \<open>\<^verbatim>\<open>_startHeartbeat\<close> and \<^verbatim>\<open>_stopHeartbeat\<close>.\<close>

definition startHeartbeat :: "rpc_client \<Rightarrow> rpc_client" where
  "startHeartbeat c = (if heartbeatIntervalMs c \<le> 0 then c else c\<lparr> heartbeatTimer := True \<rparr>)"

definition stopHeartbeat :: "rpc_client \<Rightarrow> rpc_client" where
  "stopHeartbeat c = (if heartbeatTimer c then c\<lparr> heartbeatTimer := False \<rparr> else c)"

text \<open>\<^verbatim>\<open>_rejectAllPending\<close>: every pending request in turn, then \<^verbatim>\<open>pending.clear()\<close>.\<close>

definition rejectAllPending :: "rpc_client \<Rightarrow> gateway_error \<Rightarrow> rpc_client \<times> effect list" where
  "rejectAllPending c err =
     (c\<lparr> pending := [] \<rparr>, concat (map (\<lambda>i. [ClearTimeout i, Rejected i err]) (pending c)))"

text \<open>\<^verbatim>\<open>doFail\<close> and \<^verbatim>\<open>doSucceed\<close> of the closure of WebSocket \<open>w\<close>.\<close>

definition doFail :: "rpc_client \<Rightarrow> nat \<Rightarrow> gateway_error \<Rightarrow> rpc_client \<times> effect list" where
  "doFail c w err =
     (if settled (conns c ! w) then (c, [])
      else (c\<lparr> conns := (conns c)[w := (conns c ! w)\<lparr> settled := True,
                                       promise := RejectedWith err \<rparr>] \<rparr>,
            [ConnectRejected w err]))"

definition doSucceed :: "rpc_client \<Rightarrow> nat \<Rightarrow> rpc_client \<times> effect list" where
  "doSucceed c w =
     (if settled (conns c ! w) then (c, [])
      else (startHeartbeat
              (c\<lparr> conns := (conns c)[w := (conns c ! w)\<lparr> settled := True,
                                           promise := Fulfilled \<rparr>],
                  isConnected := True, reconnectAttempts := 0 \<rparr>),
            [HookOnConnect, ConnectResolved w]))"

subsection \<open>Event dispatch\<close>

text \<open>
  \<^verbatim>\<open>for (const cb of listeners) cb(event)\<close>: the callbacks in insertion order. The loop
  has no \<^verbatim>\<open>try\<close>: when a callback throws, the exception leaves the loop (and the
  method). \<open>throws cb\<close> says whether callback \<open>cb\<close> throws on this event. The result is
  the list of callbacks invoked and whether the last of them threw.
\<close>

fun invokeAll :: "(callback \<Rightarrow> bool) \<Rightarrow> callback list \<Rightarrow> callback list \<times> bool" where
  "invokeAll throws [] = ([], False)"
| "invokeAll throws (cb # cbs) =
     (if throws cb then ([cb], True)
      else (let (r, t) = invokeAll throws cbs in (cb # r, t)))"

text \<open>\<^verbatim>\<open>event.event ?? event.name ?? ''\<close>.\<close>

definition eventNameOf :: "frame \<Rightarrow> string" where
  "eventNameOf e =
     (case f_event e of Some n \<Rightarrow> n | None \<Rightarrow> (case f_name e of Some n \<Rightarrow> n | None \<Rightarrow> []))"

text \<open>\<^verbatim>\<open>_dispatchEvent\<close>: the listeners of the event's name, then those of \<^verbatim>\<open>'*'\<close>.\<close>

definition dispatchEvent ::
  "(string \<rightharpoonup> callback list) \<Rightarrow> (callback \<Rightarrow> bool) \<Rightarrow> frame \<Rightarrow> callback list \<times> bool" where
  "dispatchEvent listeners throws e =
     (let (r1, t1) = (case listeners (eventNameOf e) of
                        Some specific \<Rightarrow> invokeAll throws specific
                      | None \<Rightarrow> ([], False))
      in if t1 then (r1, True)
         else (case listeners ''*'' of
                 Some wildcard \<Rightarrow> (let (r2, t2) = invokeAll throws wildcard in (r1 @ r2, t2))
               | None \<Rightarrow> (r1, False)))"

text \<open>
  \<^verbatim>\<open>subscribeEvent\<close>: the callback is added to the name's Set (a Set keeps one copy, at
  its first position). The returned function is \<open>unsubscribeEvent\<close>: it deletes the
  callback and drops a Set that has become empty.
\<close>

definition subscribeEvent :: "rpc_client \<Rightarrow> string \<Rightarrow> callback \<Rightarrow> rpc_client" where
  "subscribeEvent c name cb =
     (let l = (case eventListeners c name of Some l \<Rightarrow> l | None \<Rightarrow> [])
      in c\<lparr> eventListeners := (eventListeners c)(name \<mapsto> (if cb \<in> set l then l else l @ [cb])) \<rparr>)"

definition unsubscribeEvent :: "rpc_client \<Rightarrow> string \<Rightarrow> callback \<Rightarrow> rpc_client" where
  "unsubscribeEvent c name cb =
     (case eventListeners c name of
        None \<Rightarrow> c
      | Some l \<Rightarrow>
          (let l' = removeAll cb l
           in if l' = [] then c\<lparr> eventListeners := (eventListeners c)(name := None) \<rparr>
              else c\<lparr> eventListeners := (eventListeners c)(name \<mapsto> l') \<rparr>))"

subsection \<open>connect, close, request\<close>

text \<open>
  \<^verbatim>\<open>_doConnect\<close>: a new WebSocket, stored in \<^verbatim>\<open>this.ws\<close>, with a fresh closure. The
  promise returned is the one of that closure.
\<close>

definition doConnect :: "rpc_client \<Rightarrow> rpc_client \<times> effect list" where
  "doConnect c =
     (c\<lparr> ws := Some (length (conns c)),
         conns := conns c @ [\<lparr> settled = False, connectId = None, promise = Pending \<rparr>] \<rparr>,
      [WsCreated (length (conns c))])"

text \<open>
  \<^verbatim>\<open>connect\<close>: returns at once when connected; after \<^verbatim>\<open>close()\<close> it clears the closed
  flag (the source comments: calling connect again after close is allowed); then
  \<^verbatim>\<open>_doConnect\<close>. The third component is the promise returned: already fulfilled, or
  the one of the new WebSocket.
\<close>

datatype connect_promise = Immediate | Handshake nat

definition connect :: "rpc_client \<Rightarrow> rpc_client \<times> effect list \<times> connect_promise" where
  "connect c =
     (if isConnected c then (c, [], Immediate)
      else (let c1 = (if closed c then c\<lparr> closed := False, reconnectAttempts := 0 \<rparr> else c);
                (c2, effs) = doConnect c1
            in (c2, effs, Handshake (length (conns c)))))"

text \<open>
  \<^verbatim>\<open>close\<close>. (\<^verbatim>\<open>ws.close()\<close> without arguments is taken to return; the empty
  \<^verbatim>\<open>catch\<close> around it has no branch here.)
\<close>

definition close :: "rpc_client \<Rightarrow> rpc_client \<times> effect list" where
  "close c =
     (let c1 = stopHeartbeat (c\<lparr> closed := True \<rparr>);
          (c2, effs) = rejectAllPending c1 (GatewayError GATEWAY_CONNECT_FAILED ClosedByCaller None)
      in (case ws c2 of
            Some w \<Rightarrow> (c2\<lparr> ws := None \<rparr>, effs @ [WsCloseCall w])
          | None \<Rightarrow> (c2, effs)))"

text \<open>
  \<^verbatim>\<open>request\<close>. \<open>uuid\<close> is the value of \<^verbatim>\<open>crypto.randomUUID()\<close> and \<open>sendOk\<close> says
  whether \<^verbatim>\<open>ws.send\<close> returns (rather than throws). The third component \<open>Some e\<close>
  is the error thrown by the guard at the start, before anything is registered or sent.
  \<open>pendingSet\<close> is \<^verbatim>\<open>Map.prototype.set\<close> on the keys: a new key goes last.
\<close>

definition pendingSet :: "string list \<Rightarrow> string \<Rightarrow> string list" where
  "pendingSet p i = (if i \<in> set p then p else p @ [i])"

definition request ::
  "rpc_client \<Rightarrow> string \<Rightarrow> json option \<Rightarrow> string \<Rightarrow> bool
     \<Rightarrow> rpc_client \<times> effect list \<times> gateway_error option" where
  "request c method params uuid sendOk =
     (case ws c of
        None \<Rightarrow> (c, [], Some (GatewayError GATEWAY_CONNECT_FAILED (NotReady method) None))
      | Some w \<Rightarrow>
          if \<not> isConnected c
          then (c, [], Some (GatewayError GATEWAY_CONNECT_FAILED (NotReady method) None))
          else (let i = ''req_'' @ uuid
                in if sendOk
                   then (c\<lparr> pending := pendingSet (pending c) i \<rparr>,
                         [SetTimeout i,
                          WsSend w \<lparr> q_id = i, q_method = method, q_params = params \<rparr>],
                         None)
                   else (c\<lparr> pending := removeAll i (pending c) \<rparr>,
                         [SetTimeout i, ClearTimeout i,
                          Rejected i (GatewayError GATEWAY_RPC_ERROR SendFailed None)],
                         None)))"

text \<open>
  The timer of a request fires. A timer is cleared whenever its entry leaves the pending
  map, so a timer that fires belongs to a pending id.
\<close>

definition onRequestTimeout :: "rpc_client \<Rightarrow> string \<Rightarrow> string \<Rightarrow> rpc_client \<times> effect list" where
  "onRequestTimeout c i method =
     (if i \<in> set (pending c)
      then (c\<lparr> pending := removeAll i (pending c) \<rparr>,
            [Rejected i (GatewayError GATEWAY_RPC_ERROR (RequestTimedOut method) None)])
      else (c, []))"

subsection \<open>Handlers of a WebSocket\<close>

text \<open>
  Each handler belongs to the WebSocket \<open>w\<close> it was attached to; a WebSocket the client
  never created emits nothing (\<open>w \<ge> length (conns c)\<close>).
\<close>

text \<open>\<^verbatim>\<open>ws.on('open')\<close>: the connect request is the first frame sent.\<close>

definition onOpen :: "rpc_client \<Rightarrow> nat \<Rightarrow> string \<Rightarrow> bool \<Rightarrow> rpc_client \<times> effect list" where
  "onOpen c w uuid sendOk =
     (if w \<ge> length (conns c) then (c, [])
      else (let i = ''req_'' @ uuid;
                c1 = c\<lparr> conns := (conns c)[w := (conns c ! w)\<lparr> connectId := Some i \<rparr>] \<rparr>
            in if sendOk
               then (c1, [WsSend w \<lparr> q_id = i, q_method = ''connect'',
                                     q_params = Some (connectParams c) \<rparr>])
               else doFail c1 w (GatewayError GATEWAY_CONNECT_FAILED ConnectSendFailed None)))"

text \<open>
  \<^verbatim>\<open>ws.on('message')\<close>, for a frame that parsed. In order: an event frame goes to the
  hook and the listeners; a frame with a \<^verbatim>\<open>type\<close> other than \<^verbatim>\<open>'res'\<close> is skipped; so
  is a frame without (or with an empty) \<^verbatim>\<open>id\<close>; the response to this WebSocket's connect
  request settles the handshake; any other frame is looked up in the pending map.
\<close>

definition onMessage ::
  "rpc_client \<Rightarrow> (callback \<Rightarrow> bool) \<Rightarrow> nat \<Rightarrow> frame \<Rightarrow> rpc_client \<times> effect list" where
  "onMessage c throws w msg =
     (if w \<ge> length (conns c) then (c, [])
      else if f_type msg = Some ''event''
      then (let (invoked, threw) = dispatchEvent (eventListeners c) throws msg
            in (c, HookOnEvent msg # map (\<lambda>cb. Invoked cb msg) invoked
                     @ (if threw then [CallbackThrew (last invoked)] else [])))
      else if f_type msg \<noteq> None \<and> f_type msg \<noteq> Some ''res'' then (c, [])
      else (case f_id msg of
              None \<Rightarrow> (c, [])
            | Some i \<Rightarrow>
                if i = [] then (c, [])
                else if connectId (conns c ! w) = Some i
                then (let c1 = c\<lparr> conns := (conns c)[w := (conns c ! w)\<lparr> connectId := None \<rparr>] \<rparr>
                      in if hasError msg
                         then (let (c2, e1) = doFail c1 w (connectErrorOf msg);
                                   (c3, e2) = rejectAllPending c2 (connectErrorOf msg)
                               in (c3, e1 @ e2))
                         else doSucceed c1 w)
                else if i \<notin> set (pending c) then (c, [])
                else (c\<lparr> pending := removeAll i (pending c) \<rparr>,
                      [ClearTimeout i,
                       if hasError msg then Rejected i (rpcErrorOf msg)
                       else Resolved i (case f_result msg of
                                          Some r \<Rightarrow> Some r
                                        | None \<Rightarrow> f_payload msg)])))"

text \<open>\<^verbatim>\<open>ws.on('unexpected-response')\<close>: the upgrade was refused with an HTTP status.\<close>

definition onUnexpectedResponse :: "rpc_client \<Rightarrow> nat \<Rightarrow> int \<Rightarrow> rpc_client \<times> effect list" where
  "onUnexpectedResponse c w status =
     (if w \<ge> length (conns c) then (c, [])
      else (let err = (if status = 401 \<or> status = 403
                       then GatewayError UNAUTHORIZED (UpgradeTokenInvalid status) None
                       else GatewayError GATEWAY_CONNECT_FAILED (UpgradeFailed status) None);
                (c1, e1) = doFail c w err;
                (c2, e2) = rejectAllPending c1 err
            in (c2, e1 @ e2)))"

text \<open>\<^verbatim>\<open>ws.on('error')\<close>.\<close>

definition onError :: "rpc_client \<Rightarrow> nat \<Rightarrow> string \<Rightarrow> rpc_client \<times> effect list" where
  "onError c w m =
     (if w \<ge> length (conns c) then (c, [])
      else (let (c1, e1) = doFail c w (GatewayError GATEWAY_CONNECT_FAILED (WsErrorMsg m) None)
            in (c1, HookOnError m # e1)))"

text \<open>\<^verbatim>\<open>ws.on('pong')\<close>.\<close>

definition onPong :: "rpc_client \<Rightarrow> nat \<Rightarrow> int \<Rightarrow> rpc_client" where
  "onPong c w now = (if w \<ge> length (conns c) then c else c\<lparr> lastPongAt := now \<rparr>)"

text \<open>
  \<^verbatim>\<open>ws.on('close')\<close>: the client is marked disconnected, pending requests are rejected,
  and a reconnect is scheduled unless the client was closed by its owner, the close code
  is an authentication code, or the retries are used up.
\<close>

definition onClose :: "rpc_client \<Rightarrow> nat \<Rightarrow> int \<Rightarrow> string \<Rightarrow> rpc_client \<times> effect list" where
  "onClose c w code reason =
     (if w \<ge> length (conns c) then (c, [])
      else (let c0 = (stopHeartbeat (c\<lparr> isConnected := False \<rparr>))\<lparr> ws := None \<rparr>;
                isAuth = (code = 4001 \<or> code = 4003);
                err = (if isAuth then GatewayError UNAUTHORIZED (CloseTokenInvalid code) None
                       else GatewayError GATEWAY_CONNECT_FAILED (ConnectionLost code) None);
                (c1, e1) = doFail c0 w err;
                (c2, e2) = rejectAllPending c1 err;
                effs = e1 @ e2 @ [HookOnDisconnect code reason]
            in if \<not> closed c2 \<and> \<not> isAuth \<and> reconnectAttempts c2 < reconnectMaxRetries c2
               then (c2\<lparr> reconnectAttempts := reconnectAttempts c2 + 1 \<rparr>,
                     effs @ [ReconnectScheduled
                               (reconnectDelayMs c2 * (reconnectAttempts c2 + 1))])
               else (c2, effs)))"

text \<open>The reconnect timer fires: \<^verbatim>\<open>if (!this._closed) this._doConnect()\<close>.\<close>

definition onReconnectTimer :: "rpc_client \<Rightarrow> rpc_client \<times> effect list" where
  "onReconnectTimer c = (if closed c then (c, []) else doConnect c)"

subsection \<open>Runs of a client\<close>

text \<open>
  Everything that can happen to a client: a call of one of its methods, or an event of
  one of its WebSockets or timers. JavaScript runs each to completion before the next.
\<close>

datatype action =
    Connect
  | Close
  | Request string "json option" string bool
  | RequestTimeout string string
  | Subscribe string callback
  | Unsubscribe string callback
  | WsOpen nat string bool
  | WsMessage nat frame
  | WsUnexpectedResponse nat int
  | WsError nat string
  | WsPong nat int
  | WsClose nat int string
  | ReconnectTimer

fun step :: "(callback \<Rightarrow> bool) \<Rightarrow> rpc_client \<Rightarrow> action \<Rightarrow> rpc_client \<times> effect list" where
  "step throws c Connect = (let (c1, effs, p) = connect c in (c1, effs))"
| "step throws c Close = close c"
| "step throws c (Request method params uuid sendOk) =
     (let (c1, effs, e) = request c method params uuid sendOk in (c1, effs))"
| "step throws c (RequestTimeout i method) = onRequestTimeout c i method"
| "step throws c (Subscribe name cb) = (subscribeEvent c name cb, [])"
| "step throws c (Unsubscribe name cb) = (unsubscribeEvent c name cb, [])"
| "step throws c (WsOpen w uuid sendOk) = onOpen c w uuid sendOk"
| "step throws c (WsMessage w msg) = onMessage c throws w msg"
| "step throws c (WsUnexpectedResponse w status) = onUnexpectedResponse c w status"
| "step throws c (WsError w m) = onError c w m"
| "step throws c (WsPong w now) = (onPong c w now, [])"
| "step throws c (WsClose w code reason) = onClose c w code reason"
| "step throws c ReconnectTimer = onReconnectTimer c"

fun run :: "(callback \<Rightarrow> bool) \<Rightarrow> rpc_client \<Rightarrow> action list \<Rightarrow> rpc_client" where
  "run throws c [] = c"
| "run throws c (a # as) = run throws (fst (step throws c a)) as"


section \<open>GatewayRpcClientManager (gateway-rpc.ts)\<close>

subsection \<open>Configuration and pool\<close>

text \<open>
  The values of \<^verbatim>\<open>config\<close> (config.ts) that the manager passes on to a pooled client and
  that the definitions here read.
\<close>

record config =
  gatewayHeartbeatIntervalMs :: int
  clientId :: string
  clientVersion :: string
  clientInstanceId :: string

text \<open>\<^verbatim>\<open>buildConnectParams\<close>, with \<^verbatim>\<open>CONNECT_BASE_PARAMS\<close> spread in.\<close>

definition buildConnectParams :: "config \<Rightarrow> string \<Rightarrow> json" where
  "buildConnectParams cfg token =
     JObj [(''minProtocol'', JNum 3),
           (''maxProtocol'', JNum 3),
           (''client'', JObj [(''id'', JStr (clientId cfg)),
                              (''version'', JStr (clientVersion cfg)),
                              (''platform'', JStr ''web''),
                              (''mode'', JStr ''webchat''),
                              (''instanceId'', JStr (clientInstanceId cfg))]),
           (''role'', JStr ''operator''),
           (''scopes'', JArr [JStr ''operator.read'', JStr ''operator.admin'',
                              JStr ''operator.approvals'', JStr ''operator.pairing'']),
           (''auth'', JObj [(''token'', JStr token)])]"

text \<open>\<^verbatim>\<open>_makeClient\<close>: a client that does not reconnect by itself.\<close>

definition makeClient :: "config \<Rightarrow> string \<Rightarrow> rpc_client" where
  "makeClient cfg token =
     newRpcClient (gatewayHeartbeatIntervalMs cfg) 0 0 (buildConnectParams cfg token)"

definition CONNECTION_TTL_MS :: int where
  "CONNECTION_TTL_MS = 5 * 60 * 1000"

text \<open>
  A pool entry refers to its client: \<open>pe_client\<close> is the index of the \<^verbatim>\<open>RpcClient\<close>
  object in \<open>clients\<close>, so that two holders of an entry see the same client.
\<close>

record pool_entry =
  pe_client :: nat
  pe_createdAt :: int
  pe_connectPromise :: connect_promise

text \<open>
  The manager: every client object it has made, the pool, and the handlers registered with
  \<^verbatim>\<open>connectPromise.catch(() => this.pool.delete(token))\<close>, each recorded for its client as
  the WebSocket whose handshake the promise stands for and the token to delete.
\<close>

record gateway =
  cfg :: config
  clients :: "rpc_client list"
  pool :: "string \<rightharpoonup> pool_entry"
  catchHandlers :: "nat \<rightharpoonup> nat \<times> string"

definition newGateway :: "config \<Rightarrow> gateway" where
  "newGateway c = \<lparr> cfg = c, clients = [], pool = Map.empty, catchHandlers = Map.empty \<rparr>"

text \<open>The state of the promise a call of \<^verbatim>\<open>connect\<close> returned.\<close>

fun promiseState :: "rpc_client \<Rightarrow> connect_promise \<Rightarrow> promise_state" where
  "promiseState c Immediate = Fulfilled"
| "promiseState c (Handshake w) = promise (conns c ! w)"

subsection \<open>getConnection\<close>

text \<open>
  \<^verbatim>\<open>getConnection\<close> is an async function: it runs until an \<^verbatim>\<open>await\<close>, and goes on when
  the awaited promise has settled; nothing else runs in between two awaits. It awaits
  either the promise of the entry it found (line 328) or the promise of the client it has
  just made (line 350).
\<close>

datatype awaiting = AwaitEntry pool_entry | AwaitNew nat connect_promise

text \<open>
  Lines 338 to 347: make the client, start \<^verbatim>\<open>connect()\<close>, register the catch handler, put
  the entry into the pool. \<open>createdNow\<close> is the \<^verbatim>\<open>Date.now()\<close> of line 347. Effects
  carry the index of the client they belong to.
\<close>

definition createConnection ::
  "gateway \<Rightarrow> string \<Rightarrow> int \<Rightarrow> gateway \<times> (nat \<times> effect) list \<times> awaiting" where
  "createConnection g token createdNow =
     (let n = length (clients g);
          (c, effs, p) = connect (makeClient (cfg g) token)
      in (g\<lparr> clients := clients g @ [c],
             catchHandlers := (case p of
                                 Handshake w \<Rightarrow> (catchHandlers g)(n \<mapsto> (w, token))
                               | Immediate \<Rightarrow> catchHandlers g),
             pool := (pool g)(token \<mapsto> \<lparr> pe_client = n, pe_createdAt = createdNow,
                                         pe_connectPromise = p \<rparr>) \<rparr>,
          map (Pair n) effs,
          AwaitNew n p))"

text \<open>\<^verbatim>\<open>entry.client.close(); this.pool.delete(token)\<close> (lines 333 and 334).\<close>

definition discardEntry ::
  "gateway \<Rightarrow> string \<Rightarrow> pool_entry \<Rightarrow> gateway \<times> (nat \<times> effect) list" where
  "discardEntry g token entry =
     (let n = pe_client entry;
          (c, effs) = close (clients g ! n)
      in (g\<lparr> clients := (clients g)[n := c], pool := (pool g)(token := None) \<rparr>,
          map (Pair n) effs))"

text \<open>
  From the call to the first \<^verbatim>\<open>await\<close>. \<open>now\<close> is the \<^verbatim>\<open>Date.now()\<close> of line 322.
\<close>

definition getConnection_enter ::
  "gateway \<Rightarrow> string \<Rightarrow> int \<Rightarrow> int \<Rightarrow> gateway \<times> (nat \<times> effect) list \<times> awaiting" where
  "getConnection_enter g token now createdNow =
     (case pool g token of
        None \<Rightarrow> createConnection g token createdNow
      | Some entry \<Rightarrow>
          if \<not> (now - pe_createdAt entry \<ge> CONNECTION_TTL_MS)
          then (g, [], AwaitEntry entry)
          else (let (g1, e1) = discardEntry g token entry;
                    (g2, e2, k) = createConnection g1 token createdNow
                in (g2, e1 @ e2, k)))"

text \<open>
  From an \<^verbatim>\<open>await\<close> on: the call returns the client, throws, or awaits again (the promise
  is not settled yet, or the entry's client is no longer connected and a new one was made).
\<close>

datatype outcome = Returned nat | Threw gateway_error | Suspended awaiting

definition getConnection_resume ::
  "gateway \<Rightarrow> string \<Rightarrow> awaiting \<Rightarrow> int \<Rightarrow> gateway \<times> (nat \<times> effect) list \<times> outcome" where
  "getConnection_resume g token k createdNow =
     (case k of
        AwaitEntry entry \<Rightarrow>
          (case promiseState (clients g ! pe_client entry) (pe_connectPromise entry) of
             Pending \<Rightarrow> (g, [], Suspended k)
           | RejectedWith e \<Rightarrow> (g, [], Threw e)
           | Fulfilled \<Rightarrow>
               if isConnected (clients g ! pe_client entry)
               then (g, [], Returned (pe_client entry))
               else (let (g1, e1) = discardEntry g token entry;
                         (g2, e2, k2) = createConnection g1 token createdNow
                     in (g2, e1 @ e2, Suspended k2)))
      | AwaitNew n p \<Rightarrow>
          (case promiseState (clients g ! n) p of
             Pending \<Rightarrow> (g, [], Suspended k)
           | RejectedWith e \<Rightarrow> (g, [], Threw e)
           | Fulfilled \<Rightarrow> (g, [], Returned n)))"

subsection \<open>Events of pooled clients\<close>

text \<open>Whether the effects reject the handshake promise of WebSocket \<open>w\<close>.\<close>

fun rejectsConnect :: "nat \<Rightarrow> effect list \<Rightarrow> bool" where
  "rejectsConnect w [] = False"
| "rejectsConnect w (ConnectRejected w' e # effs) = (w' = w \<or> rejectsConnect w effs)"
| "rejectsConnect w (x # effs) = rejectsConnect w effs"

text \<open>
  Something happens to client \<open>n\<close> (an event of its WebSocket, or a method call by a
  holder). When that rejects the promise a catch handler was registered on, the handler
  runs before any awaiting caller goes on and deletes the token from the pool.
\<close>

definition deliver ::
  "gateway \<Rightarrow> (callback \<Rightarrow> bool) \<Rightarrow> nat \<Rightarrow> action \<Rightarrow> gateway \<times> effect list" where
  "deliver g throws n a =
     (if n \<ge> length (clients g) then (g, [])
      else (let (c, effs) = step throws (clients g ! n) a;
                g1 = g\<lparr> clients := (clients g)[n := c] \<rparr>
            in (case catchHandlers g n of
                  None \<Rightarrow> (g1, effs)
                | Some (w, token) \<Rightarrow>
                    if rejectsConnect w effs
                    then (g1\<lparr> pool := (pool g1)(token := None) \<rparr>, effs)
                    else (g1, effs))))"

text \<open>
  Callers enter \<^verbatim>\<open>getConnection\<close> one after the other, each with its two clock readings:
  the state after the last, what each awaits, and the effects of all.
\<close>

fun enterAll ::
  "gateway \<Rightarrow> string \<Rightarrow> (int \<times> int) list
     \<Rightarrow> gateway \<times> awaiting list \<times> (nat \<times> effect) list" where
  "enterAll g token [] = (g, [], [])"
| "enterAll g token ((now, createdNow) # ts) =
     (let (g1, effs, k) = getConnection_enter g token now createdNow;
          (g2, ks, effs2) = enterAll g1 token ts
      in (g2, k # ks, effs @ effs2))"

text \<open>\<^verbatim>\<open>closeToken\<close>: the entry's client is closed and the entry deleted.\<close>

definition closeToken :: "gateway \<Rightarrow> string \<Rightarrow> gateway \<times> (nat \<times> effect) list" where
  "closeToken g token =
     (case pool g token of
        Some entry \<Rightarrow> discardEntry g token entry
      | None \<Rightarrow> (g, []))"

section \<open>Route error mapping (routes/sessions.ts, routes/messages.ts)\<close>


text \<open>The literal or template of the body's \<^verbatim>\<open>message\<close>.\<close>

datatype body_message =
    TokenExpired
  | CannotReachGateway gw_message
  | ErrMessage gw_message
  | Fallback string
  | SessionNotFound

record error_response =
  status :: nat
  code :: string
  message :: body_message




section \<open>sendStream (gateway-rpc.ts)\<close>

text \<open>
  The events the generator yields. A chunk's text is \<^verbatim>\<open>String(data.delta)\<close>; the chunk
  carries the delta the text is made from.
\<close>

datatype stream_event = Chunk json | Done "json option"

text \<open>
  The variables the generator, the event callback and the two continuations of the
  \<^verbatim>\<open>chat.send\<close> promise share: \<^verbatim>\<open>buffer\<close>, \<^verbatim>\<open>done\<close>, \<^verbatim>\<open>error\<close>; whether the
  callback is still subscribed; whether the generator has run to its end.
\<close>

record stream_state =
  buffer :: "stream_event list"
  doneFlag :: bool
  streamError :: "gateway_error option"
  subscribed :: bool
  completed :: bool

text \<open>The state when the generator has subscribed and fired \<^verbatim>\<open>chat.send\<close>.\<close>

definition startStream :: stream_state where
  "startStream = \<lparr> buffer = [], doneFlag = False, streamError = None, subscribed = True,
                   completed = False \<rparr>"

text \<open>\<^verbatim>\<open>(event.payload ?? event.data ?? {})\<close>.\<close>

definition payloadOf :: "frame \<Rightarrow> json" where
  "payloadOf e =
     (case coalesce (coalesce (f_payload e) (f_data e)) (Some (JObj [])) of
        Some j \<Rightarrow> j
      | None \<Rightarrow> JObj [])"

text \<open>
  The callback subscribed under \<^verbatim>\<open>'*'\<close> (lines 408 to 443), for the stream of session
  \<open>sk\<close>.
\<close>

definition onStreamEvent :: "string \<Rightarrow> stream_state \<Rightarrow> frame \<Rightarrow> stream_state" where
  "onStreamEvent sk st e =
     (let payload = payloadOf e
      in if field payload ''sessionKey'' \<noteq> None \<and> field payload ''sessionKey'' \<noteq> Some (JStr sk)
         then st
         else if eventNameOf e = ''agent''
         then (let data = (case coalesce (field payload ''data'') (Some (JObj [])) of
                             Some j \<Rightarrow> j
                           | None \<Rightarrow> JObj [])
               in if field payload ''stream'' = Some (JStr ''assistant'')
                  then (case field data ''delta'' of
                          Some d \<Rightarrow> st\<lparr> buffer := buffer st @ [Chunk d] \<rparr>
                        | None \<Rightarrow> st)
                  else st)
         else if eventNameOf e = ''chat''
         then (if field payload ''state'' = Some (JStr ''final'')
               then st\<lparr> buffer := buffer st @ [Done (coalesce (field payload ''message'')
                                                        (Some payload))],
                        doneFlag := True \<rparr>
               else st)
         else st)"

text \<open>The \<^verbatim>\<open>.then\<close> and \<^verbatim>\<open>.catch\<close> continuations of the \<^verbatim>\<open>chat.send\<close> request.\<close>

definition onRpcResult :: "stream_state \<Rightarrow> json option \<Rightarrow> stream_state" where
  "onRpcResult st result =
     (if \<not> doneFlag st
      then st\<lparr> buffer := buffer st @ [Done result], doneFlag := True \<rparr>
      else st)"

definition onRpcError :: "stream_state \<Rightarrow> gateway_error \<Rightarrow> stream_state" where
  "onRpcError st err = st\<lparr> streamError := Some err, doneFlag := True \<rparr>"

text \<open>
  The consumer asks for the next event. The loop yields the head of the buffer; with an
  empty buffer it ends when \<^verbatim>\<open>done\<close> is set (throwing the error, if any, after the
  \<^verbatim>\<open>finally\<close> block has unsubscribed) and waits otherwise.
\<close>

datatype gen_result = Yield stream_event | Waiting | Return | Throw gateway_error

definition genNext :: "stream_state \<Rightarrow> stream_state \<times> gen_result" where
  "genNext st =
     (if completed st then (st, Return)
      else (case buffer st of
              x # xs \<Rightarrow> (st\<lparr> buffer := xs \<rparr>, Yield x)
            | [] \<Rightarrow>
                if doneFlag st
                then (st\<lparr> subscribed := False, completed := True \<rparr>,
                      (case streamError st of Some e \<Rightarrow> Throw e | None \<Rightarrow> Return))
                else (st, Waiting)))"

text \<open>
  What happens to a stream: the client dispatches an event frame (the callback runs while
  it is subscribed), the request settles, or the consumer asks for the next event.
\<close>

datatype stream_action =
    StreamEvent frame
  | RpcResolved "json option"
  | RpcRejected gateway_error
  | Next

fun streamStep :: "string \<Rightarrow> stream_state \<Rightarrow> stream_action \<Rightarrow> stream_state \<times> gen_result list" where
  "streamStep sk st (StreamEvent e) = (if subscribed st then onStreamEvent sk st e else st, [])"
| "streamStep sk st (RpcResolved r) = (onRpcResult st r, [])"
| "streamStep sk st (RpcRejected err) = (onRpcError st err, [])"
| "streamStep sk st Next = (let (st1, r) = genNext st in (st1, [r]))"

text \<open>The answers the consumer gets in a run, in order.\<close>

fun runStream :: "string \<Rightarrow> stream_state \<Rightarrow> stream_action list \<Rightarrow> gen_result list" where
  "runStream sk st [] = []"
| "runStream sk st (a # as) =
     (let (st1, out) = streamStep sk st a in out @ runStream sk st1 as)"


section \<open>Notions used in the statements\<close>

text \<open>
  The callbacks an event frame is for: those registered under its name, then those
  registered under \<^verbatim>\<open>'*'\<close>, each group in registration order.
\<close>

definition listenersFor :: "(string \<rightharpoonup> callback list) \<Rightarrow> frame \<Rightarrow> callback list" where
  "listenersFor listeners e =
     (case listeners (eventNameOf e) of Some l \<Rightarrow> l | None \<Rightarrow> []) @
     (case listeners ''*'' of Some l \<Rightarrow> l | None \<Rightarrow> [])"

text \<open>
  Stages of a pooled client: made and connecting; connect request sent; handshake done.
\<close>

definition openingClient :: "config \<Rightarrow> string \<Rightarrow> rpc_client" where
  "openingClient cf token = (makeClient cf token)\<lparr> ws := Some 0,
      conns := [\<lparr> settled = False, connectId = None, promise = Pending \<rparr>] \<rparr>"

definition sentConnect :: "config \<Rightarrow> string \<Rightarrow> string \<Rightarrow> rpc_client" where
  "sentConnect cf token uuid = (makeClient cf token)\<lparr> ws := Some 0,
      conns := [\<lparr> settled = False, connectId = Some (''req_'' @ uuid), promise = Pending \<rparr>] \<rparr>"

definition readyClient :: "config \<Rightarrow> string \<Rightarrow> rpc_client" where
  "readyClient cf token = startHeartbeat ((makeClient cf token)\<lparr> ws := Some 0,
      conns := [\<lparr> settled = True, connectId = None, promise = Fulfilled \<rparr>],
      isConnected := True, reconnectAttempts := 0 \<rparr>)"

text \<open>The connect request a pooled client sends for a token.\<close>

definition connectRequest :: "config \<Rightarrow> string \<Rightarrow> string \<Rightarrow> rpc_request" where
  "connectRequest cf token uuid =
     \<lparr> q_id = ''req_'' @ uuid, q_method = ''connect'',
       q_params = Some (buildConnectParams cf token) \<rparr>"

text \<open>A manager that has just pooled client \<open>c\<close> for a token, as its newest client.\<close>

definition pooled :: "gateway \<Rightarrow> string \<Rightarrow> int \<Rightarrow> rpc_client \<Rightarrow> gateway" where
  "pooled g token t c =
     g\<lparr> clients := clients g @ [c],
        catchHandlers := (catchHandlers g)(length (clients g) \<mapsto> (0, token)),
        pool := (pool g)(token \<mapsto> \<lparr> pe_client = length (clients g), pe_createdAt = t,
                                    pe_connectPromise = Handshake 0 \<rparr>) \<rparr>"

section \<open>Example inputs\<close>

text \<open>Callbacks of which none throws, and callbacks of which callback 0 throws.\<close>

definition noThrow :: "callback \<Rightarrow> bool" where
  "noThrow cb = False"

definition throwsFirst :: "callback \<Rightarrow> bool" where
  "throwsFirst cb = (cb = 0)"

definition emptyFrame :: frame where
  "emptyFrame = \<lparr> f_type = None, f_id = None, f_result = None, f_ok = None, f_payload = None,
                  f_error = None, f_event = None, f_name = None, f_data = None \<rparr>"

text \<open>\<^verbatim>\<open>{ "type": "res", "id": i, "ok": true }\<close>\<close>

definition okFrame :: "string \<Rightarrow> frame" where
  "okFrame i = emptyFrame\<lparr> f_type := Some ''res'', f_id := Some i, f_ok := Some (JBool True) \<rparr>"


text \<open>\<^verbatim>\<open>{ "type": "event", "event": name, "payload": p }\<close>\<close>

definition eventFrame :: "string \<Rightarrow> json \<Rightarrow> frame" where
  "eventFrame name p = emptyFrame\<lparr> f_type := Some ''event'', f_event := Some name,
                                   f_payload := Some p \<rparr>"

text \<open>A client after a successful handshake, and the same with one request in flight.\<close>

definition connectedClient :: rpc_client where
  "connectedClient =
     run noThrow (newRpcClient 0 0 0 JNull)
       [Connect, WsOpen 0 ''a'' True, WsMessage 0 (okFrame ''req_a'')]"

definition requestingClient :: rpc_client where
  "requestingClient =
     run noThrow connectedClient [Request ''sessions.list'' None ''b'' True]"

definition exampleConfig :: config where
  "exampleConfig = \<lparr> gatewayHeartbeatIntervalMs = 30000, clientId = ''openclaw-control-ui'',
                      clientVersion = ''1.0.0'', clientInstanceId = ''bridge'' \<rparr>"





text \<open>
  Push frames of a reply in session \<^verbatim>\<open>s1\<close>: a chunk of the assistant stream, and the
  final chat message.
\<close>

definition chunkFrame :: "string \<Rightarrow> frame" where
  "chunkFrame delta =
     eventFrame ''agent'' (JObj [(''sessionKey'', JStr ''s1''), (''stream'', JStr ''assistant''),
                                (''data'', JObj [(''delta'', JStr delta)])])"

definition finalFrame :: frame where
  "finalFrame =
     eventFrame ''chat'' (JObj [(''sessionKey'', JStr ''s1''), (''state'', JStr ''final''),
                               (''message'', JObj [(''role'', JStr ''assistant''),
                                                  (''content'', JStr ''Hello'')])])"

text \<open>The final chat message of another reply in the same session.\<close>

definition secondFinalFrame :: frame where
  "secondFinalFrame =
     eventFrame ''chat'' (JObj [(''sessionKey'', JStr ''s1''), (''state'', JStr ''final''),
                               (''message'', JObj [(''role'', JStr ''assistant''),
                                                  (''content'', JStr ''Bye'')])])"

text \<open>\<^verbatim>\<open>{ "type": "res", "id": i, "ok": false }\<close>\<close>

definition failedFrame :: "string \<Rightarrow> frame" where
  "failedFrame i = emptyFrame\<lparr> f_type := Some ''res'', f_id := Some i, f_ok := Some (JBool False) \<rparr>"

text \<open>A stand-alone client that reconnects once by itself, after its handshake.\<close>

definition standaloneClient :: rpc_client where
  "standaloneClient =
     run noThrow (newRpcClient 0 1 500 JNull)
       [Connect, WsOpen 0 ''a'' True, WsMessage 0 (okFrame ''req_a'')]"


text \<open>
  A manager in which a handshake got no answer for the whole TTL. A first caller made
  client 0 at time 0; its WebSocket opened and the connect request was sent, but the
  Gateway stayed silent. At time 300000 a second caller found the entry stale, closed
  client 0 and made client 1. Then the socket of client 0 closed: its connect promise was
  rejected and its catch handler deleted the token from the pool, that is, the entry of
  client 1. The pool has no entry for \<^verbatim>\<open>T\<close> while client 1 is still connecting.
\<close>

definition orphanGateway :: gateway where
  "orphanGateway =
     (let g1 = fst (getConnection_enter (newGateway exampleConfig) ''T'' 0 0);
          g2 = fst (deliver g1 noThrow 0 (WsOpen 0 ''a'' True));
          g3 = fst (getConnection_enter g2 ''T'' 300000 300000)
      in fst (deliver g3 noThrow 0 (WsClose 0 1006 [])))"

text \<open>
  Caller A asks for a connection now and finds no entry. While A waits, the upgrade of
  client 1 is refused (HTTP 502). Then caller B asks, and later both new sockets open and
  the Gateway accepts both connect requests.
\<close>

definition afterCallerA :: gateway where
  "afterCallerA = fst (getConnection_enter orphanGateway ''T'' 300010 300010)"

definition raceGateway :: gateway where
  "raceGateway = fst (deliver afterCallerA noThrow 1 (WsUnexpectedResponse 0 502))"

definition afterCallerB :: gateway where
  "afterCallerB = fst (getConnection_enter raceGateway ''T'' 300020 300020)"

definition bothOpen :: gateway where
  "bothOpen =
     fst (deliver (fst (deliver afterCallerB noThrow 2 (WsOpen 0 ''c'' True)))
            noThrow 3 (WsOpen 0 ''d'' True))"

definition bothReady :: gateway where
  "bothReady =
     fst (deliver (fst (deliver bothOpen noThrow 2 (WsMessage 0 (okFrame ''req_c''))))
            noThrow 3 (WsMessage 0 (okFrame ''req_d'')))"

text \<open>
  The same with \<^verbatim>\<open>closeToken\<close>: a caller made client 0, the token was closed during the
  handshake, caller A made client 1, and then the socket of client 0 closed.
\<close>

definition closedTokenGateway :: gateway where
  "closedTokenGateway =
     (let g1 = fst (getConnection_enter (newGateway exampleConfig) ''T'' 0 0);
          g2 = fst (closeToken g1 ''T'');
          g3 = fst (getConnection_enter g2 ''T'' 10 10)
      in fst (deliver g3 noThrow 0 (WsClose 0 1005 [])))"

section \<open>Properties of the session manager\<close>

subsection \<open>The archive set\<close>

lemma tokenArchive_fst:
  "fst (tokenArchive m token) = (case archiveSet m token of Some s \<Rightarrow> s | None \<Rightarrow> {})"
  by (simp add: tokenArchive_def split: option.splits)

lemma archive_archiveSet:
  "archiveSet (snd (archive m token k)) =
     (archiveSet m)(token \<mapsto> insert k (fst (tokenArchive m token)))"
  by (simp add: archive_def tokenArchive_def split: option.splits)


lemma archive_cache: "cache (snd (archive m token k)) = cache m"
  by (simp add: archive_def tokenArchive_def split: option.splits)

text \<open>
  C5, as stated: an archive flag for a key exists only if the manager knows the key for
  that token. It fails on a fresh manager: the PATCH route's \<^const>\<open>archiveSession\<close> with
  \<^verbatim>\<open>archived: true\<close> records a flag for a key that \<^const>\<open>getLocalSession\<close> does not
  know.
\<close>

theorem archive_unknown_key_counterexample:
  "getLocalSession newSessionManager ''tok'' ''ghost'' = None \<and>
   ''ghost'' \<in> fst (tokenArchive
      (snd (archiveSession newSessionManager ''tok'' ''ghost'' True)) ''tok'')"
  by (simp add: getLocalSession_def newSessionManager_def archiveSession_def archive_def
      tokenArchive_def)

text \<open>
  C5, amended: \<^const>\<open>archive\<close> records the flag for any key, known to the manager or not.
  The flag goes into the in-memory archive set of that token; no other token's set and no
  cache entry changes.
\<close>

theorem archive_records_any_key:
  "k \<in> fst (tokenArchive (snd (archive m token k)) token) \<and>
   archiveSet (snd (archive m token k)) =
     (archiveSet m)(token \<mapsto> insert k (fst (tokenArchive m token))) \<and>
   cache (snd (archive m token k)) = cache m"
  by (simp add: tokenArchive_fst archive_archiveSet archive_cache)

subsection \<open>archive, then unarchive\<close>





subsection \<open>Entries dropped by normalizeSessions\<close>

lemma filterBoolean_length: "length (filterBoolean rs) \<le> length rs"
  by (induction rs rule: filterBoolean.induct) auto

lemma mapThrow_length: "mapThrow f xs = Inr ys \<Longrightarrow> length ys = length xs"
  by (induction xs arbitrary: ys) (auto split: sum.splits)

lemma normalizeEntry_non_null: "s \<noteq> JNull \<Longrightarrow> \<exists>r. normalizeEntry nowIso s = Inr r"
  by (cases s) (auto simp: normalizeEntry_def split: option.splits)

lemma normalizeEntry_key:
  "normalizeEntry nowIso s = Inr (Some n) \<Longrightarrow>
   sessionKey n \<noteq> [] \<and>
   asString (coalesce (field s ''sessionKey'') (field s ''key'')) = Some (sessionKey n)"
  by (cases s) (auto simp: normalizeEntry_def split: option.splits if_splits)

lemma mapThrow_non_null:
  "JNull \<notin> set xs \<Longrightarrow> \<exists>rs. mapThrow (normalizeEntry nowIso) xs = Inr rs"
proof (induction xs)
  case Nil
  show ?case by simp
next
  case (Cons x xs)
  then obtain rs where rs: "mapThrow (normalizeEntry nowIso) xs = Inr rs" by auto
  from Cons.prems have "x \<noteq> JNull" by auto
  then obtain r where "normalizeEntry nowIso x = Inr r"
    using normalizeEntry_non_null by blast
  with rs show ?case by simp
qed

lemma mapThrow_set:
  "mapThrow f xs = Inr ys \<Longrightarrow> y \<in> set ys \<Longrightarrow> \<exists>x \<in> set xs. f x = Inr y"
  by (induction xs arbitrary: ys) (auto split: sum.splits)

lemma filterBoolean_set: "n \<in> set (filterBoolean rs) \<longleftrightarrow> Some n \<in> set rs"
  by (induction rs rule: filterBoolean.induct) auto

text \<open>
  On a response without a \<^verbatim>\<open>null\<close> entry the normalisation returns, never with more
  sessions than entries, and every session it returns has the non-empty string the entry
  carries as \<^verbatim>\<open>sessionKey\<close> (or, when that is null or absent, as \<^verbatim>\<open>key\<close>).
\<close>

lemma normalizeSessions_non_null:
  assumes "JNull \<notin> set (rawSessions raw)"
  shows "\<exists>out. normalizeSessions nowIso raw = Inr out \<and>
           length out \<le> length (rawSessions raw) \<and>
           (\<forall>n \<in> set out. sessionKey n \<noteq> [] \<and>
              (\<exists>s \<in> set (rawSessions raw).
                 asString (coalesce (field s ''sessionKey'') (field s ''key''))
                   = Some (sessionKey n)))"
proof -
  from assms obtain rs where rs: "mapThrow (normalizeEntry nowIso) (rawSessions raw) = Inr rs"
    using mapThrow_non_null by blast
  have len: "length (filterBoolean rs) \<le> length (rawSessions raw)"
    using filterBoolean_length [of rs] mapThrow_length [OF rs] by simp
  have keys: "sessionKey n \<noteq> [] \<and>
      (\<exists>s \<in> set (rawSessions raw).
         asString (coalesce (field s ''sessionKey'') (field s ''key'')) = Some (sessionKey n))"
    if "n \<in> set (filterBoolean rs)" for n
  proof -
    from that have "Some n \<in> set rs" by (simp add: filterBoolean_set)
    then obtain s where s: "s \<in> set (rawSessions raw)" "normalizeEntry nowIso s = Inr (Some n)"
      using mapThrow_set [OF rs] by blast
    with normalizeEntry_key [OF s(2)] show ?thesis by blast
  qed
  from rs len keys show ?thesis by (simp add: normalizeSessions_def)
qed

text \<open>
  C10: \<^verbatim>\<open>list\<close> is to drop silently every entry without a string \<^verbatim>\<open>sessionKey\<close> or
  \<^verbatim>\<open>key\<close>. A \<^verbatim>\<open>null\<close> entry is such an entry, and the code does not drop it: reading
  \<^verbatim>\<open>s.sessionKey\<close> throws, and the whole call fails, the valid session with it.
\<close>

theorem list_null_entry_throws:
  "list_sessions newSessionManager ''t'' ''now''
     (Some (JArr [JObj [(''sessionKey'', JStr ''a'')], JNull])) = Inl TypeError"
  by (simp add: list_sessions_def normalizeSessions_def normalizeEntry_def coalesce_def)


section \<open>Properties of the RPC client\<close>

subsection \<open>Response frames\<close>






lemma requestingClient_fields:
  "conns requestingClient = [\<lparr> settled = True, connectId = None, promise = Fulfilled \<rparr>]"
  "pending requestingClient = [''req_b'']"
  "isConnected requestingClient"
  "ws requestingClient = Some 0"
  by (code_simp+)




text \<open>A response with \<^verbatim>\<open>ok: false\<close> and no error object rejects with a made-up one.\<close>

lemma ok_false_rejects_example:
  "snd (onMessage requestingClient noThrow 0 (failedFrame ''req_b''))
     = [ClearTimeout ''req_b'',
        Rejected ''req_b''
          (GatewayError GATEWAY_RPC_ERROR RpcFailed
             (Some (MadeUp ''RPC_ERROR'' (failedFrame ''req_b''))))]"
  by (simp add: requestingClient_fields onMessage_def failedFrame_def emptyFrame_def
      hasError_def rpcErrorOf_def coalesce_def)

subsection \<open>Frames that are not responses\<close>




subsection \<open>Event dispatch\<close>

lemma invokeAll_char:
  "invokeAll throws cbs =
     (takeWhile (\<lambda>cb. \<not> throws cb) cbs @ take 1 (dropWhile (\<lambda>cb. \<not> throws cb) cbs),
      list_ex throws cbs)"
  by (induction cbs) auto

lemma invokeAll_append:
  "invokeAll throws (xs @ ys) =
     (if snd (invokeAll throws xs) then invokeAll throws xs
      else (fst (invokeAll throws xs) @ fst (invokeAll throws ys), snd (invokeAll throws ys)))"
  by (induction xs) (auto simp: split_beta)

lemma dispatchEvent_invokeAll:
  "dispatchEvent listeners throws e = invokeAll throws (listenersFor listeners e)"
  by (cases "invokeAll throws (case listeners (eventNameOf e) of Some l \<Rightarrow> l | None \<Rightarrow> [])")
     (auto simp: dispatchEvent_def listenersFor_def invokeAll_append split_beta
        split: option.splits)

text \<open>
  C4, as stated: an exception thrown by one callback does not keep the remaining callbacks
  from being invoked. It does: with callbacks 0 and 1 subscribed under \<^verbatim>\<open>'*'\<close> in this
  order and callback 0 throwing, callback 1 is not invoked.
\<close>

theorem dispatch_isolation_counterexample:
  "dispatchEvent
     (eventListeners (subscribeEvent (subscribeEvent connectedClient ''*'' 0) ''*'' 1))
     throwsFirst (eventFrame ''chat'' (JObj [])) = ([0], True)"
  by code_simp

text \<open>
  C4, amended: the callbacks registered under the event's name, then those registered
  under \<^verbatim>\<open>'*'\<close>, are invoked in registration order up to and including the first one
  that throws; the dispatch ends with that exception exactly when one of them throws. So
  when none throws, every one of them is invoked, in that order.
\<close>

theorem dispatch_until_first_throw:
  "dispatchEvent listeners throws e =
     (takeWhile (\<lambda>cb. \<not> throws cb) (listenersFor listeners e)
        @ take 1 (dropWhile (\<lambda>cb. \<not> throws cb) (listenersFor listeners e)),
      list_ex throws (listenersFor listeners e))"
  by (simp add: dispatchEvent_invokeAll invokeAll_char)

lemma dispatch_without_throw:
  assumes "\<forall>cb \<in> set (listenersFor listeners e). \<not> throws cb"
  shows "dispatchEvent listeners throws e = (listenersFor listeners e, False)"
proof -
  from assms have
    tw: "takeWhile (\<lambda>cb. \<not> throws cb) (listenersFor listeners e) = listenersFor listeners e"
    and dw: "dropWhile (\<lambda>cb. \<not> throws cb) (listenersFor listeners e) = []"
    by simp_all
  from assms have ex: "\<not> list_ex throws (listenersFor listeners e)"
    by (simp add: list_ex_iff)
  show ?thesis
    unfolding dispatchEvent_invokeAll invokeAll_char tw dw using ex by simp
qed

subsection \<open>close and connect\<close>

lemma rejectAllPending_fields [simp]:
  "closed (fst (rejectAllPending c e)) = closed c"
  "ws (fst (rejectAllPending c e)) = ws c"
  "isConnected (fst (rejectAllPending c e)) = isConnected c"
  "conns (fst (rejectAllPending c e)) = conns c"
  by (simp_all add: rejectAllPending_def)

lemma doFail_fields [simp]:
  "closed (fst (doFail c w e)) = closed c"
  "ws (fst (doFail c w e)) = ws c"
  "isConnected (fst (doFail c w e)) = isConnected c"
  "length (conns (fst (doFail c w e))) = length (conns c)"
  by (simp_all add: doFail_def)

lemma doSucceed_fields [simp]:
  "closed (fst (doSucceed c w)) = closed c"
  "ws (fst (doSucceed c w)) = ws c"
  "length (conns (fst (doSucceed c w))) = length (conns c)"
  by (simp_all add: doSucceed_def startHeartbeat_def)

lemma stopHeartbeat_fields [simp]:
  "closed (stopHeartbeat c) = closed c"
  "ws (stopHeartbeat c) = ws c"
  "isConnected (stopHeartbeat c) = isConnected c"
  "conns (stopHeartbeat c) = conns c"
  "pending (stopHeartbeat c) = pending c"
  by (simp_all add: stopHeartbeat_def)

lemma close_closed: "closed (fst (close c)) \<and> ws (fst (close c)) = None"
  by (simp add: close_def Let_def split_beta split: option.splits)

lemma onMessage_closed:
  "closed (fst (onMessage c throws w msg)) = closed c \<and>
   ws (fst (onMessage c throws w msg)) = ws c"
  by (simp add: onMessage_def Let_def split_beta split: option.splits)

lemma onClose_closed:
  "closed (fst (onClose c w cc r)) = closed c \<and>
   ws (fst (onClose c w cc r)) = (if w < length (conns c) then None else ws c)"
  by (simp add: onClose_def Let_def split_beta)

lemma onOpen_closed:
  "closed (fst (onOpen c w u ok)) = closed c \<and> ws (fst (onOpen c w u ok)) = ws c"
  by (simp add: onOpen_def Let_def)

lemma onUnexpectedResponse_closed:
  "closed (fst (onUnexpectedResponse c w s)) = closed c \<and>
   ws (fst (onUnexpectedResponse c w s)) = ws c"
  by (simp add: onUnexpectedResponse_def Let_def split_beta)

lemma onError_closed:
  "closed (fst (onError c w m)) = closed c \<and> ws (fst (onError c w m)) = ws c"
  by (simp add: onError_def Let_def split_beta)

lemma request_closed:
  "closed (fst (request c m p u ok)) = closed c \<and> ws (fst (request c m p u ok)) = ws c"
  by (simp add: request_def Let_def split: option.splits)

lemma subscribe_closed:
  "closed (subscribeEvent c n cb) = closed c \<and> ws (subscribeEvent c n cb) = ws c"
  "closed (unsubscribeEvent c n cb) = closed c \<and> ws (unsubscribeEvent c n cb) = ws c"
  by (simp_all add: subscribeEvent_def unsubscribeEvent_def Let_def split: option.splits)

text \<open>Nothing but \<^verbatim>\<open>connect()\<close> clears the closed flag or gives the client a WebSocket.\<close>

lemma step_keeps_closed:
  assumes "a \<noteq> Connect" "closed c" "ws c = None"
  shows "closed (fst (step throws c a)) \<and> ws (fst (step throws c a)) = None"
proof (cases a)
  case Connect
  with assms show ?thesis by simp
next
  case Close
  then show ?thesis by (simp add: close_closed)
next
  case (Request m p u ok)
  with assms show ?thesis by (simp add: request_closed split_beta)
next
  case (RequestTimeout i m)
  with assms show ?thesis by (simp add: onRequestTimeout_def)
next
  case (Subscribe n cb)
  with assms show ?thesis by (simp add: subscribe_closed)
next
  case (Unsubscribe n cb)
  with assms show ?thesis by (simp add: subscribe_closed)
next
  case (WsOpen w u ok)
  with assms show ?thesis by (simp add: onOpen_closed)
next
  case (WsMessage w msg)
  with assms show ?thesis by (simp add: onMessage_closed)
next
  case (WsUnexpectedResponse w s)
  with assms show ?thesis by (simp add: onUnexpectedResponse_closed)
next
  case (WsError w m)
  with assms show ?thesis by (simp add: onError_closed)
next
  case (WsPong w n)
  with assms show ?thesis by (simp add: onPong_def)
next
  case (WsClose w cc r)
  with assms show ?thesis by (simp add: onClose_closed)
next
  case ReconnectTimer
  with assms show ?thesis by (simp add: onReconnectTimer_def)
qed

lemma run_keeps_closed:
  "Connect \<notin> set as \<Longrightarrow> closed c \<Longrightarrow> ws c = None \<Longrightarrow>
   closed (run throws c as) \<and> ws (run throws c as) = None"
proof (induction as arbitrary: c)
  case Nil
  then show ?case by simp
next
  case (Cons a as)
  then have "a \<noteq> Connect" "Connect \<notin> set as" by auto
  with Cons show ?case using step_keeps_closed [of a c throws] by simp
qed

text \<open>
  C2, as stated: after \<^verbatim>\<open>close()\<close> no later \<^verbatim>\<open>connect()\<close> on the same instance returns it
  to a connected state. It does: a client that was connected, closed by its owner and
  has seen its WebSocket close is connected again after \<^verbatim>\<open>connect()\<close> and a second
  handshake on a second WebSocket.
\<close>

theorem reconnect_after_close_counterexample:
  "closed (run noThrow connectedClient [Close, WsClose 0 1005 []]) \<and>
   \<not> isConnected (run noThrow connectedClient [Close, WsClose 0 1005 []]) \<and>
   isConnected (run noThrow connectedClient
     [Close, WsClose 0 1005 [], Connect, WsOpen 1 ''c'' True, WsMessage 1 (okFrame ''req_c'')]) \<and>
   \<not> closed (run noThrow connectedClient
     [Close, WsClose 0 1005 [], Connect, WsOpen 1 ''c'' True, WsMessage 1 (okFrame ''req_c'')])"
  by code_simp

lemma connect_when_closed:
  assumes "closed c"
  shows "connect c =
           (if isConnected c then (c, [], Immediate)
            else (c\<lparr> closed := False, reconnectAttempts := 0,
                     ws := Some (length (conns c)),
                     conns := conns c @ [\<lparr> settled = False, connectId = None,
                                            promise = Pending \<rparr>] \<rparr>,
                  [WsCreated (length (conns c))],
                  Handshake (length (conns c))))"
  using assms by (simp add: connect_def doConnect_def)

text \<open>
  C2, amended: after \<^verbatim>\<open>close()\<close>, and for as long as \<^verbatim>\<open>connect()\<close> is not called again,
  the instance is not reopened: whatever its WebSockets and timers deliver and whatever
  else is called, the closed flag stays set, the client has no WebSocket, and every
  \<^verbatim>\<open>request\<close> fails with \<^verbatim>\<open>GATEWAY_CONNECT_FAILED\<close>. A \<^verbatim>\<open>connect()\<close> called then
  returns at once and changes nothing while the client is still marked connected
  (\<^verbatim>\<open>close()\<close> does not clear that mark, the close event of the socket does); once the
  client is marked disconnected, \<^verbatim>\<open>connect()\<close> clears the closed flag and opens a new
  WebSocket on the same instance.
\<close>

theorem closed_until_connect:
  assumes "Connect \<notin> set as"
  shows "closed (run throws (fst (close c)) as) \<and>
         ws (run throws (fst (close c)) as) = None \<and>
         snd (snd (request (run throws (fst (close c)) as) method params uuid sendOk))
           = Some (GatewayError GATEWAY_CONNECT_FAILED (NotReady method) None) \<and>
         connect (run throws (fst (close c)) as) =
           (if isConnected (run throws (fst (close c)) as)
            then (run throws (fst (close c)) as, [], Immediate)
            else ((run throws (fst (close c)) as)
                    \<lparr> closed := False, reconnectAttempts := 0,
                      ws := Some (length (conns (run throws (fst (close c)) as))),
                      conns := conns (run throws (fst (close c)) as)
                                 @ [\<lparr> settled = False, connectId = None, promise = Pending \<rparr>] \<rparr>,
                  [WsCreated (length (conns (run throws (fst (close c)) as)))],
                  Handshake (length (conns (run throws (fst (close c)) as)))))"
proof -
  have inv: "closed (run throws (fst (close c)) as) \<and> ws (run throws (fst (close c)) as) = None"
    using run_keeps_closed [OF assms, of "fst (close c)" throws] close_closed [of c] by simp
  then have "connect (run throws (fst (close c)) as) =
           (if isConnected (run throws (fst (close c)) as)
            then (run throws (fst (close c)) as, [], Immediate)
            else ((run throws (fst (close c)) as)
                    \<lparr> closed := False, reconnectAttempts := 0,
                      ws := Some (length (conns (run throws (fst (close c)) as))),
                      conns := conns (run throws (fst (close c)) as)
                                 @ [\<lparr> settled = False, connectId = None, promise = Pending \<rparr>] \<rparr>,
                  [WsCreated (length (conns (run throws (fst (close c)) as)))],
                  Handshake (length (conns (run throws (fst (close c)) as)))))"
    by (intro connect_when_closed) simp
  with inv show ?thesis by (simp add: request_def)
qed

lemma closed_runs_example:
  "isConnected (run noThrow (fst (close requestingClient)) [])"
  "\<not> isConnected (run noThrow (fst (close requestingClient))
        [WsMessage 0 (okFrame ''req_b''), WsClose 0 1005 [], ReconnectTimer])"
  "length (conns (run noThrow (fst (close requestingClient))
        [WsMessage 0 (okFrame ''req_b''), WsClose 0 1005 [], ReconnectTimer])) = 1"
  by (code_simp+)

theorem closed_until_connect_witness:
  "Connect \<notin> set [WsMessage 0 (okFrame ''req_b''), WsClose 0 1005 [], ReconnectTimer] \<and>
   closed (run noThrow (fst (close requestingClient))
             [WsMessage 0 (okFrame ''req_b''), WsClose 0 1005 [], ReconnectTimer]) \<and>
   ws (run noThrow (fst (close requestingClient))
             [WsMessage 0 (okFrame ''req_b''), WsClose 0 1005 [], ReconnectTimer]) = None \<and>
   snd (snd (request (run noThrow (fst (close requestingClient))
             [WsMessage 0 (okFrame ''req_b''), WsClose 0 1005 [], ReconnectTimer])
          ''sessions.list'' None ''d'' True))
     = Some (GatewayError GATEWAY_CONNECT_FAILED (NotReady ''sessions.list'') None) \<and>
   snd (connect (run noThrow (fst (close requestingClient))
             [WsMessage 0 (okFrame ''req_b''), WsClose 0 1005 [], ReconnectTimer]))
     = ([WsCreated 1], Handshake 1) \<and>
   closed (fst (connect (run noThrow (fst (close requestingClient))
             [WsMessage 0 (okFrame ''req_b''), WsClose 0 1005 [], ReconnectTimer]))) = False \<and>
   Connect \<notin> set ([] :: action list) \<and>
   connect (run noThrow (fst (close requestingClient)) [])
     = (run noThrow (fst (close requestingClient)) [], [], Immediate)"
proof -
  have h: "Connect \<notin> set [WsMessage 0 (okFrame ''req_b''), WsClose 0 1005 [], ReconnectTimer]"
    by simp
  have h0: "Connect \<notin> set ([] :: action list)" by simp
  show ?thesis
    using h h0
      closed_until_connect [OF h, of noThrow requestingClient "''sessions.list''" None "''d''" True]
      closed_until_connect [OF h0, of noThrow requestingClient "''sessions.list''" None "''d''" True]
    by (simp add: closed_runs_example del: run.simps)
qed

text \<open>
  A lost connection is another matter: a client whose owner did not close it and whose
  retries are not used up connects again by itself when the reconnect timer fires.
\<close>

lemma reconnect_after_loss_example:
  "snd (onClose standaloneClient 0 1006 [])
     = [HookOnDisconnect 1006 [], ReconnectScheduled 500] \<and>
   \<not> isConnected (run noThrow standaloneClient [WsClose 0 1006 []]) \<and>
   isConnected (run noThrow standaloneClient
     [WsClose 0 1006 [], ReconnectTimer, WsOpen 1 ''c'' True, WsMessage 1 (okFrame ''req_c'')])"
  by code_simp


section \<open>Properties of the connection pool\<close>

subsection \<open>A pooled client through its handshake\<close>

lemma connect_makeClient:
  "connect (makeClient cf token) = (openingClient cf token, [WsCreated 0], Handshake 0)"
  by (simp add: connect_def makeClient_def newRpcClient_def doConnect_def openingClient_def)

lemma createConnection_eq:
  "createConnection g token t =
     (pooled g token t (openingClient (cfg g) token),
      [(length (clients g), WsCreated 0)],
      AwaitNew (length (clients g)) (Handshake 0))"
  by (simp add: createConnection_def connect_makeClient Let_def pooled_def)

lemma enter_existing:
  "pool g token = Some entry \<Longrightarrow> now - pe_createdAt entry < CONNECTION_TTL_MS \<Longrightarrow>
   getConnection_enter g token now t = (g, [], AwaitEntry entry)"
  by (simp add: getConnection_enter_def)

lemma enterAll_existing:
  "pool g token = Some entry \<Longrightarrow>
   list_all (\<lambda>(now, t). now - pe_createdAt entry < CONNECTION_TTL_MS) ts \<Longrightarrow>
   enterAll g token ts = (g, replicate (length ts) (AwaitEntry entry), [])"
  by (induction ts) (auto simp: enter_existing)

lemma enterAll_first:
  assumes "pool g token = None"
      and "list_all (\<lambda>(now, t). now - t0 < CONNECTION_TTL_MS) ts"
  shows "enterAll g token ((now0, t0) # ts) =
           (pooled g token t0 (openingClient (cfg g) token),
            AwaitNew (length (clients g)) (Handshake 0)
              # replicate (length ts)
                  (AwaitEntry \<lparr> pe_client = length (clients g), pe_createdAt = t0,
                                pe_connectPromise = Handshake 0 \<rparr>),
            [(length (clients g), WsCreated 0)])"
proof -
  let ?g1 = "pooled g token t0 (openingClient (cfg g) token)"
  let ?entry = "\<lparr> pe_client = length (clients g), pe_createdAt = t0,
                   pe_connectPromise = Handshake 0 \<rparr>"
  have first: "getConnection_enter g token now0 t0 =
      (?g1, [(length (clients g), WsCreated 0)], AwaitNew (length (clients g)) (Handshake 0))"
    using assms(1) by (simp add: getConnection_enter_def createConnection_eq)
  have "pool ?g1 token = Some ?entry" by (simp add: pooled_def)
  then have rest: "enterAll ?g1 token ts = (?g1, replicate (length ts) (AwaitEntry ?entry), [])"
    using assms(2) by (intro enterAll_existing) auto
  show ?thesis by (simp add: first rest)
qed

lemma deliver_pooled:
  assumes "step throws c a = (c', effs)" "\<not> rejectsConnect 0 effs"
  shows "deliver (pooled g token t c) throws (length (clients g)) a = (pooled g token t c', effs)"
  using assms by (simp add: deliver_def pooled_def)

lemma open_step:
  "step throws (openingClient cf token) (WsOpen 0 uuid True) =
     (sentConnect cf token uuid, [WsSend 0 (connectRequest cf token uuid)])"
  by (simp add: onOpen_def openingClient_def sentConnect_def connectRequest_def makeClient_def
      newRpcClient_def Let_def)

lemma answer_step:
  assumes "f_type msg = None \<or> f_type msg = Some ''res''"
      and "f_id msg = Some (''req_'' @ uuid)"
      and "\<not> hasError msg"
  shows "step throws (sentConnect cf token uuid) (WsMessage 0 msg) =
     (readyClient cf token, [HookOnConnect, ConnectResolved 0])"
  using assms
  by (auto simp add: onMessage_def sentConnect_def readyClient_def doSucceed_def Let_def)

lemma readyClient_fields:
  "isConnected (readyClient cf token)"
  "conns (readyClient cf token) = [\<lparr> settled = True, connectId = None, promise = Fulfilled \<rparr>]"
  by (simp_all add: readyClient_def startHeartbeat_def)

subsection \<open>Concurrent callers\<close>

lemma enterAll_pooled:
  assumes "list_all (\<lambda>(now, t). now - t0 < CONNECTION_TTL_MS) us"
  shows "enterAll (pooled g token t0 c) token us =
           (pooled g token t0 c,
            replicate (length us)
              (AwaitEntry \<lparr> pe_client = length (clients g), pe_createdAt = t0,
                            pe_connectPromise = Handshake 0 \<rparr>),
            [])"
  using assms by (intro enterAll_existing) (auto simp: pooled_def)

text \<open>
  Callers of \<^verbatim>\<open>getConnection(T)\<close> that overlap with one handshake, when nothing but
  that handshake happens in between (in particular, no older client of the token fails).
  The first arrives while the pool has no entry for
  \<^verbatim>\<open>T\<close> (clock readings \<open>now0\<close> and \<open>t0\<close>); the others arrive before the WebSocket
  has opened (\<open>ts\<close>) or before the Gateway has answered the connect request (\<open>us\<close>),
  each within the TTL of \<open>t0\<close>. Exactly one client is made, with one WebSocket; until
  the Gateway answers, every caller stays suspended on that handshake; when it answers
  without an error, every caller returns that one client.
\<close>

lemma shared_handshake:
  assumes none: "pool g token = None"
      and within: "list_all (\<lambda>(now, t). now - t0 < CONNECTION_TTL_MS) ts"
                  "list_all (\<lambda>(now, t). now - t0 < CONNECTION_TTL_MS) us"
      and type: "f_type msg = None \<or> f_type msg = Some ''res''"
      and ident: "f_id msg = Some (''req_'' @ uuid)"
      and ok: "\<not> hasError msg"
  shows "let n = length (clients g);
             (g1, ks, made) = enterAll g token ((now0, t0) # ts);
             (g2, sent) = deliver g1 throws n (WsOpen 0 uuid True);
             (g3, ks', made') = enterAll g2 token us;
             (g4, effs) = deliver g3 throws n (WsMessage 0 msg)
         in length (clients g4) = n + 1 \<and> take n (clients g4) = clients g \<and>
            length (conns (clients g4 ! n)) = 1 \<and>
            made = [(n, WsCreated 0)] \<and> made' = [] \<and>
            ks = AwaitNew n (Handshake 0)
                   # replicate (length ts)
                       (AwaitEntry \<lparr> pe_client = n, pe_createdAt = t0,
                                     pe_connectPromise = Handshake 0 \<rparr>) \<and>
            ks' = replicate (length us)
                    (AwaitEntry \<lparr> pe_client = n, pe_createdAt = t0,
                                  pe_connectPromise = Handshake 0 \<rparr>) \<and>
            sent = [WsSend 0 (connectRequest (cfg g) token uuid)] \<and>
            effs = [HookOnConnect, ConnectResolved 0] \<and>
            list_all (\<lambda>k. getConnection_resume g3 token k t' = (g3, [], Suspended k))
              (ks @ ks') \<and>
            list_all (\<lambda>k. getConnection_resume g4 token k t' = (g4, [], Returned n))
              (ks @ ks')"
proof -
  let ?n = "length (clients g)"
  let ?entry = "\<lparr> pe_client = ?n, pe_createdAt = t0, pe_connectPromise = Handshake 0 \<rparr>"
  let ?g1 = "pooled g token t0 (openingClient (cfg g) token)"
  let ?g2 = "pooled g token t0 (sentConnect (cfg g) token uuid)"
  let ?g4 = "pooled g token t0 (readyClient (cfg g) token)"
  have e: "enterAll g token ((now0, t0) # ts) =
      (?g1, AwaitNew ?n (Handshake 0) # replicate (length ts) (AwaitEntry ?entry),
       [(?n, WsCreated 0)])"
    by (rule enterAll_first [OF none within(1)])
  have d1: "deliver ?g1 throws ?n (WsOpen 0 uuid True) =
      (?g2, [WsSend 0 (connectRequest (cfg g) token uuid)])"
    by (rule deliver_pooled [OF open_step]) simp
  have e2: "enterAll ?g2 token us = (?g2, replicate (length us) (AwaitEntry ?entry), [])"
    by (rule enterAll_pooled [OF within(2)])
  have d2: "deliver ?g2 throws ?n (WsMessage 0 msg) = (?g4, [HookOnConnect, ConnectResolved 0])"
    by (rule deliver_pooled [OF answer_step [OF type ident ok]]) simp
  have s1: "getConnection_resume ?g2 token (AwaitNew ?n (Handshake 0)) t'
              = (?g2, [], Suspended (AwaitNew ?n (Handshake 0)))"
    by (simp add: getConnection_resume_def pooled_def sentConnect_def)
  have s2: "getConnection_resume ?g2 token (AwaitEntry ?entry) t'
              = (?g2, [], Suspended (AwaitEntry ?entry))"
    by (simp add: getConnection_resume_def pooled_def sentConnect_def)
  have r1: "getConnection_resume ?g4 token (AwaitNew ?n (Handshake 0)) t' = (?g4, [], Returned ?n)"
    by (simp add: getConnection_resume_def pooled_def readyClient_fields)
  have r2: "getConnection_resume ?g4 token (AwaitEntry ?entry) t' = (?g4, [], Returned ?n)"
    by (simp add: getConnection_resume_def pooled_def readyClient_fields)
  have l4: "length (clients ?g4) = ?n + 1" "take ?n (clients ?g4) = clients g"
    "length (conns (clients ?g4 ! ?n)) = 1"
    by (simp_all add: pooled_def readyClient_fields)
  show ?thesis
    unfolding Let_def e d1 e2 d2 prod.case using l4 s1 s2 r1 r2
    by (auto simp add: list_all_iff)
qed

text \<open>
  When the Gateway refuses the connect request instead, the same callers all fail with the
  error of that one handshake, and the catch handler has taken the entry out of the pool.
\<close>

lemma refuse_step:
  assumes "f_type msg = None \<or> f_type msg = Some ''res''"
      and "f_id msg = Some (''req_'' @ uuid)"
      and "hasError msg"
  shows "step throws (sentConnect cf token uuid) (WsMessage 0 msg) =
     ((makeClient cf token)\<lparr> ws := Some 0,
         conns := [\<lparr> settled = True, connectId = None,
                     promise = RejectedWith (connectErrorOf msg) \<rparr>] \<rparr>,
      [ConnectRejected 0 (connectErrorOf msg)])"
  using assms
  by (auto simp add: onMessage_def sentConnect_def doFail_def rejectAllPending_def Let_def
      makeClient_def newRpcClient_def)

lemma shared_handshake_refused:
  assumes none: "pool g token = None"
      and within: "list_all (\<lambda>(now, t). now - t0 < CONNECTION_TTL_MS) ts"
      and type: "f_type msg = None \<or> f_type msg = Some ''res''"
      and ident: "f_id msg = Some (''req_'' @ uuid)"
      and bad: "hasError msg"
  shows "let n = length (clients g);
             (g1, ks, made) = enterAll g token ((now0, t0) # ts);
             (g2, sent) = deliver g1 throws n (WsOpen 0 uuid True);
             (g3, effs) = deliver g2 throws n (WsMessage 0 msg)
         in length (clients g3) = n + 1 \<and> length (conns (clients g3 ! n)) = 1 \<and>
            pool g3 token = None \<and>
            list_all (\<lambda>k. getConnection_resume g3 token k t'
                             = (g3, [], Threw (connectErrorOf msg))) ks"
proof -
  let ?n = "length (clients g)"
  let ?entry = "\<lparr> pe_client = ?n, pe_createdAt = t0, pe_connectPromise = Handshake 0 \<rparr>"
  let ?g1 = "pooled g token t0 (openingClient (cfg g) token)"
  let ?g2 = "pooled g token t0 (sentConnect (cfg g) token uuid)"
  let ?c3 = "(makeClient (cfg g) token)\<lparr> ws := Some 0,
         conns := [\<lparr> settled = True, connectId = None,
                     promise = RejectedWith (connectErrorOf msg) \<rparr>] \<rparr>"
  let ?g3 = "(pooled g token t0 ?c3)\<lparr> pool := (pool (pooled g token t0 ?c3))(token := None) \<rparr>"
  have e: "enterAll g token ((now0, t0) # ts) =
      (?g1, AwaitNew ?n (Handshake 0) # replicate (length ts) (AwaitEntry ?entry),
       [(?n, WsCreated 0)])"
    by (rule enterAll_first [OF none within])
  have d1: "deliver ?g1 throws ?n (WsOpen 0 uuid True) =
      (?g2, [WsSend 0 (connectRequest (cfg g) token uuid)])"
    by (rule deliver_pooled [OF open_step]) simp
  have d2: "deliver ?g2 throws ?n (WsMessage 0 msg) = (?g3, [ConnectRejected 0 (connectErrorOf msg)])"
    using refuse_step [OF type ident bad, of throws "cfg g" token]
    by (simp add: deliver_def pooled_def)
  have r1: "getConnection_resume ?g3 token (AwaitNew ?n (Handshake 0)) t'
              = (?g3, [], Threw (connectErrorOf msg))"
    by (simp add: getConnection_resume_def pooled_def)
  have r2: "getConnection_resume ?g3 token (AwaitEntry ?entry) t'
              = (?g3, [], Threw (connectErrorOf msg))"
    by (simp add: getConnection_resume_def pooled_def)
  have l3: "length (clients ?g3) = ?n + 1" "length (conns (clients ?g3 ! ?n)) = 1"
    "pool ?g3 token = None"
    by (simp_all add: pooled_def)
  show ?thesis
    unfolding Let_def e d1 d2 prod.case using l3 r1 r2 by (simp add: list_all_iff)
qed

subsection \<open>A catch handler that outlives its entry\<close>

lemma orphanGateway_fields:
  "pool orphanGateway ''T'' = None"
  "length (clients orphanGateway) = 2"
  "promiseState (clients orphanGateway ! 1) (Handshake 0) = Pending"
  "catchHandlers orphanGateway 1 = Some (0, ''T'')"
  by (code_simp+)

text \<open>
  C6: callers of \<^verbatim>\<open>getConnection(T)\<close> that overlap and find no pool entry are to share
  one client and one handshake. They do not when an earlier client of the token fails in
  between, because the catch handler of that client deletes the pool entry by token,
  whichever client the entry is for. Here caller A finds no entry and makes client 2; the
  upgrade of the older client 1 is refused, and its catch handler deletes the entry of
  client 2 while A is still suspended on that handshake; caller B finds no entry and makes
  client 3. Both sockets open, two connect requests go out, A returns client 2 and B
  returns client 3.
\<close>

theorem overlapping_callers_two_clients:
  "pool orphanGateway ''T'' = None \<and>
   snd (getConnection_enter orphanGateway ''T'' 300010 300010)
     = ([(2, WsCreated 0)], AwaitNew 2 (Handshake 0)) \<and>
   pool afterCallerA ''T''
     = Some \<lparr> pe_client = 2, pe_createdAt = 300010, pe_connectPromise = Handshake 0 \<rparr> \<and>
   snd (deliver afterCallerA noThrow 1 (WsUnexpectedResponse 0 502))
     = [ConnectRejected 0 (GatewayError GATEWAY_CONNECT_FAILED (UpgradeFailed 502) None)] \<and>
   pool raceGateway ''T'' = None \<and>
   snd (getConnection_resume raceGateway ''T'' (AwaitNew 2 (Handshake 0)) 300020)
     = ([], Suspended (AwaitNew 2 (Handshake 0))) \<and>
   snd (getConnection_enter raceGateway ''T'' 300020 300020)
     = ([(3, WsCreated 0)], AwaitNew 3 (Handshake 0)) \<and>
   snd (deliver afterCallerB noThrow 2 (WsOpen 0 ''c'' True))
     = [WsSend 0 (connectRequest exampleConfig ''T'' ''c'')] \<and>
   snd (deliver (fst (deliver afterCallerB noThrow 2 (WsOpen 0 ''c'' True)))
          noThrow 3 (WsOpen 0 ''d'' True))
     = [WsSend 0 (connectRequest exampleConfig ''T'' ''d'')] \<and>
   snd (getConnection_resume bothReady ''T'' (AwaitNew 2 (Handshake 0)) 300030)
     = ([], Returned 2) \<and>
   snd (getConnection_resume bothReady ''T'' (AwaitNew 3 (Handshake 0)) 300030)
     = ([], Returned 3) \<and>
   length (clients bothReady) = 4"
  by code_simp

text \<open>
  The same after \<^verbatim>\<open>closeToken\<close> during a handshake: the socket of the closed client
  closes, its catch handler deletes the entry caller A has just made, and the next caller
  makes one more client.
\<close>

lemma closeToken_two_clients:
  "pool closedTokenGateway ''T'' = None \<and>
   length (clients closedTokenGateway) = 2 \<and>
   promiseState (clients closedTokenGateway ! 1) (Handshake 0) = Pending \<and>
   snd (getConnection_enter closedTokenGateway ''T'' 20 20)
     = ([(2, WsCreated 0)], AwaitNew 2 (Handshake 0))"
  by code_simp

subsection \<open>An UNAUTHORIZED response\<close>






section \<open>Properties of sendStream\<close>

text \<open>
  The guard of the \<^verbatim>\<open>.then\<close> continuation: once the stream is marked done, the result
  of the request adds nothing.
\<close>

lemma rpc_result_after_done: "doneFlag st \<Longrightarrow> onRpcResult st r = st"
  by (simp add: onRpcResult_def)

lemma rpc_result_before_done:
  "\<not> doneFlag st \<Longrightarrow>
   onRpcResult st r = st\<lparr> buffer := buffer st @ [Done r], doneFlag := True \<rparr>"
  by (simp add: onRpcResult_def)

text \<open>The event callback has no such guard: a final chat event always adds a completion.\<close>

lemma final_event_always_adds_done:
  "buffer (onStreamEvent ''s1'' st finalFrame) =
     buffer st @ [Done (Some (JObj [(''role'', JStr ''assistant''), (''content'', JStr ''Hello'')]))]"
  by (simp add: onStreamEvent_def finalFrame_def eventFrame_def emptyFrame_def payloadOf_def
      coalesce_def eventNameOf_def)

text \<open>
  C8: the sequence a stream emits is to hold one completion. The request's result is indeed
  dropped when a final event came first, but not the other way round: when the request
  resolves first and the final chat event of the same session arrives before the generator
  has run to its end (the consumer is still writing a chunk), the event is buffered as a
  second completion, and the generator yields both.
\<close>

theorem duplicate_done_after_rpc_result:
  "runStream ''s1'' startStream
     [Next, StreamEvent (chunkFrame ''Hel''), Next,
      RpcResolved (Some (JObj [(''runId'', JStr ''r1'')])), StreamEvent finalFrame,
      Next, Next, Next]
   = [Waiting,
      Yield (Chunk (JStr ''Hel'')),
      Yield (Done (Some (JObj [(''runId'', JStr ''r1'')]))),
      Yield (Done (Some (JObj [(''role'', JStr ''assistant''), (''content'', JStr ''Hello'')]))),
      Return]"
  by code_simp


text \<open>
  The same happens with two final events of the session (two replies in flight): neither
  is dropped.
\<close>

lemma duplicate_done_two_finals:
  "runStream ''s1'' startStream
     [Next, StreamEvent finalFrame, StreamEvent secondFinalFrame, Next, Next, Next]
   = [Waiting,
      Yield (Done (Some (JObj [(''role'', JStr ''assistant''), (''content'', JStr ''Hello'')]))),
      Yield (Done (Some (JObj [(''role'', JStr ''assistant''), (''content'', JStr ''Bye'')]))),
      Return]"
  by code_simp

text \<open>
  When the final event comes first and the generator is read to its end, the stream holds
  one completion: the result of the request is dropped.
\<close>

lemma single_done_final_first:
  "runStream ''s1'' startStream
     [Next, StreamEvent (chunkFrame ''Hel''), StreamEvent finalFrame,
      RpcResolved (Some (JObj [(''runId'', JStr ''r1'')])), Next, Next, Next]
   = [Waiting,
      Yield (Chunk (JStr ''Hel'')),
      Yield (Done (Some (JObj [(''role'', JStr ''assistant''), (''content'', JStr ''Hello'')]))),
      Return]"
  by code_simp


end
